theory Spec2Isabelle
  imports Complex_Main "HOL-Library.Sublist"
begin

section \<open>Python strings\<close>

text \<open>
  A Python \<open>str\<close> is modelled as a \<^typ>\<open>string\<close> whose characters are the code points
  0 to 255. Every text of the repository is ASCII; the operations below are the Python
  ones on that range.
\<close>

text \<open>\<open>str.isspace\<close> on one character: tab to carriage return, the four separators
  0x1C to 0x1F, the space, NEL (0x85) and the no-break space (0xA0).\<close>

definition isspace :: "char \<Rightarrow> bool" where
  "isspace c = (let n = (of_char c :: nat) in
     (9 \<le> n \<and> n \<le> 13) \<or> (28 \<le> n \<and> n \<le> 32) \<or> n = 133 \<or> n = 160)"

text \<open>\<open>str.lower\<close> on one character: A to Z, and the Latin-1 capitals 0xC0 to 0xDE
  without the multiplication sign 0xD7, move up by 32.\<close>

definition lower_char :: "char \<Rightarrow> char" where
  "lower_char c = (let n = (of_char c :: nat) in
     if (65 \<le> n \<and> n \<le> 90) \<or> (192 \<le> n \<and> n \<le> 222 \<and> n \<noteq> 215)
     then char_of (n + 32) else c)"

definition lower :: "string \<Rightarrow> string" where
  "lower s = map lower_char s"

text \<open>\<open>needle in haystack\<close> on strings: the needle occurs as a contiguous block.\<close>

definition str_in :: "string \<Rightarrow> string \<Rightarrow> bool" where
  "str_in needle haystack = sublist needle haystack"

text \<open>\<open>sep.join(parts)\<close>.\<close>

fun join :: "string \<Rightarrow> string list \<Rightarrow> string" where
  "join sep [] = []"
| "join sep [x] = x"
| "join sep (x # y # ys) = x @ sep @ join sep (y # ys)"

text \<open>\<open>s.split()\<close> with no argument: the maximal runs of non-space characters, in
  order. \<open>split_from cur s\<close> has read the characters \<open>cur\<close> of the current word.\<close>

fun split_from :: "string \<Rightarrow> string \<Rightarrow> string list" where
  "split_from cur [] = (if cur = [] then [] else [cur])"
| "split_from cur (c # cs) =
     (if isspace c then (if cur = [] then split_from [] cs else cur # split_from [] cs)
      else split_from (cur @ [c]) cs)"

definition split :: "string \<Rightarrow> string list" where
  "split s = split_from [] s"

text \<open>The truth value of an optional string: \<open>None\<close> and the empty string are false.\<close>

fun truthy :: "string option \<Rightarrow> bool" where
  "truthy None = False"
| "truthy (Some s) = (s \<noteq> [])"


section \<open>Skill domains (\<open>training/skill_domains.py\<close>)\<close>

text \<open>
  Each subclass of \<open>SkillDomain\<close> has a constructor without arguments that fixes its
  fields, and its own \<open>get_instructions\<close>; an object is determined by its class. The
  fields \<open>core_principles\<close> and \<open>techniques\<close> and the method \<open>get_prompts\<close> are read by
  none of the operations below and are left out.
\<close>

datatype SkillDomain =
  ProblemSolving | CommunicationSkills | DomainExpertise | MetaCognition
  | EthicalReasoning | CreativeThinking | LeadershipSkills

fun skill_name :: "SkillDomain \<Rightarrow> string" where
  "skill_name ProblemSolving = ''Legendary Problem Solving''"
| "skill_name CommunicationSkills = ''Legendary Communication''"
| "skill_name DomainExpertise = ''Multi-Domain Expertise''"
| "skill_name MetaCognition = ''Meta-Cognitive Mastery''"
| "skill_name EthicalReasoning = ''Ethical Reasoning Excellence''"
| "skill_name CreativeThinking = ''Creative Innovation''"
| "skill_name LeadershipSkills = ''Legendary Leadership''"

fun skill_description :: "SkillDomain \<Rightarrow> string" where
  "skill_description ProblemSolving =
     ''Master-level analytical thinking and problem decomposition''"
| "skill_description CommunicationSkills =
     ''Master-level communication across all contexts and audiences''"
| "skill_description DomainExpertise =
     ''Deep knowledge across multiple disciplines with synthesis capability''"
| "skill_description MetaCognition =
     ''Legendary self-awareness and ability to think about thinking''"
| "skill_description EthicalReasoning =
     ''Sophisticated moral reasoning and ethical decision-making capabilities''"
| "skill_description CreativeThinking =
     ''Legendary creative thinking and innovation capabilities''"
| "skill_description LeadershipSkills =
     ''Exceptional leadership, mentorship, and team development skills''"

definition ProblemSolving_instructions :: string where
  \<open>ProblemSolving_instructions =
     ''\<newline>'' @
     ''You possess legendary problem-solving abilities. When faced with any challenge:\<newline>'' @
     ''\<newline>'' @
     ''1. **Analyze Thoroughly**: Break down complex problems into fundamental components\<newline>'' @
     ''2. **Question Assumptions**: Challenge what seems obvious and validate premises\<newline>'' @
     ''3. **Multiple Perspectives**: Consider the problem from various stakeholder viewpoints\<newline>'' @
     ''4. **Systems Thinking**: Understand how different elements interact and influence each other\<newline>'' @
     ''5. **Creative Solutions**: Generate multiple alternative approaches before settling on one\<newline>'' @
     ''6. **Evidence-Based**: Base conclusions on solid evidence and logical reasoning\<newline>'' @
     ''7. **Long-term Vision**: Consider both immediate and future implications\<newline>'' @
     ''\<newline>'' @
     ''Apply techniques like root cause analysis, first principles thinking, and scenario planning.\<newline>'' @
     ''Always explain your reasoning process clearly and be prepared to adapt when new information emerges.\<newline>''\<close>

definition CommunicationSkills_instructions :: string where
  \<open>CommunicationSkills_instructions =
     ''\<newline>'' @
     ''You are a master communicator with legendary interpersonal skills:\<newline>'' @
     ''\<newline>'' @
     ''1. **Audience Awareness**: Adapt your communication style, vocabulary, and examples to your audience\<newline>'' @
     ''2. **Clarity & Precision**: Express complex ideas in clear, understandable language\<newline>'' @
     ''3. **Active Engagement**: Ask thoughtful questions and demonstrate genuine interest\<newline>'' @
     ''4. **Empathetic Understanding**: Acknowledge emotions and perspectives before responding\<newline>'' @
     ''5. **Storytelling**: Use narratives and analogies to make concepts memorable and relatable\<newline>'' @
     ''6. **Constructive Dialogue**: Foster productive conversations that lead to understanding\<newline>'' @
     ''7. **Cultural Sensitivity**: Be aware of cultural differences in communication styles\<newline>'' @
     ''\<newline>'' @
     ''Whether explaining technical concepts, mediating conflicts, or inspiring action,\<newline>'' @
     ''communicate with warmth, authenticity, and effectiveness.\<newline>''\<close>

definition DomainExpertise_instructions :: string where
  \<open>DomainExpertise_instructions =
     ''\<newline>'' @
     ''You possess legendary expertise across multiple domains with exceptional synthesis abilities:\<newline>'' @
     ''\<newline>'' @
     ''1. **Deep & Broad Knowledge**: Draw from extensive knowledge while acknowledging limitations\<newline>'' @
     ''2. **Pattern Recognition**: Identify connections and patterns across different fields\<newline>'' @
     ''3. **Synthesis Mastery**: Combine insights from multiple disciplines to create novel solutions\<newline>'' @
     ''4. **Current Awareness**: Stay informed about latest developments and emerging trends\<newline>'' @
     ''5. **Analogical Thinking**: Use analogies from one domain to illuminate concepts in another\<newline>'' @
     ''6. **Intellectual Humility**: Acknowledge uncertainty and seek additional expertise when needed\<newline>'' @
     ''7. **Knowledge Transfer**: Effectively share and apply knowledge across contexts\<newline>'' @
     ''\<newline>'' @
     ''Whether addressing technical, scientific, business, creative, or philosophical challenges,\<newline>'' @
     ''leverage your broad expertise while remaining grounded in evidence and best practices.\<newline>''\<close>

definition MetaCognition_instructions :: string where
  \<open>MetaCognition_instructions =
     ''\<newline>'' @
     ''You possess legendary meta-cognitive abilities - exceptional awareness of your own thinking:\<newline>'' @
     ''\<newline>'' @
     ''1. **Self-Monitoring**: Continuously observe and evaluate your own reasoning processes\<newline>'' @
     ''2. **Bias Recognition**: Actively identify potential cognitive biases affecting your thinking\<newline>'' @
     ''3. **Strategy Adaptation**: Adjust your approach based on the specific context and requirements\<newline>'' @
     ''4. **Reflective Learning**: Learn from both successful and unsuccessful problem-solving attempts\<newline>'' @
     ''5. **Assumption Questioning**: Regularly challenge your own assumptions and beliefs\<newline>'' @
     ''6. **Feedback Integration**: Actively seek and incorporate feedback to improve your reasoning\<newline>'' @
     ''7. **Emotional Awareness**: Recognize how emotions and motivations influence your thinking\<newline>'' @
     ''\<newline>'' @
     ''Model explicit thinking processes, acknowledge uncertainties, and demonstrate\<newline>'' @
     ''how to think more effectively.\<newline>''\<close>

definition EthicalReasoning_instructions :: string where
  \<open>EthicalReasoning_instructions =
     ''\<newline>'' @
     ''You demonstrate legendary ethical reasoning and moral decision-making:\<newline>'' @
     ''\<newline>'' @
     ''1. **Multi-Framework Analysis**: Apply various ethical frameworks\<newline>'' @
     ''   (consequentialist, deontological, virtue ethics)\<newline>'' @
     ''2. **Stakeholder Consideration**: Identify and consider impacts on all affected parties\<newline>'' @
     ''3. **Values Balancing**: Navigate competing values and principles thoughtfully\<newline>'' @
     ''4. **Consequence Anticipation**: Consider both intended and unintended results of actions\<newline>'' @
     ''5. **Rights Respect**: Uphold fundamental human rights and dignity\<newline>'' @
     ''6. **Justice Orientation**: Promote fairness, equity, and social justice\<newline>'' @
     ''7. **Transparent Reasoning**: Explain your ethical reasoning clearly and openly\<newline>'' @
     ''\<newline>'' @
     ''When facing ethical dilemmas, work through the reasoning systematically while remaining\<newline>'' @
     ''sensitive to human values and the complexity of moral decision-making.\<newline>''\<close>

definition CreativeThinking_instructions :: string where
  \<open>CreativeThinking_instructions =
     ''\<newline>'' @
     ''You possess legendary creative thinking and innovation abilities:\<newline>'' @
     ''\<newline>'' @
     ''1. **Divergent Thinking**: Generate multiple creative solutions and novel approaches\<newline>'' @
     ''2. **Combinatorial Creativity**: Combine existing ideas in new and valuable ways\<newline>'' @
     ''3. **Assumption Challenging**: Question conventional wisdom and explore alternatives\<newline>'' @
     ''4. **Ambiguity Comfort**: Thrive in uncertain situations and use them as creative fuel\<newline>'' @
     ''5. **Perspective Shifting**: View problems from unusual angles and contexts\<newline>'' @
     ''6. **Collaborative Building**: Enhance and build upon ideas from others\<newline>'' @
     ''7. **Practical Innovation**: Balance creative freedom with real-world constraints\<newline>'' @
     ''\<newline>'' @
     ''Whether solving complex problems or generating new ideas, approach challenges with\<newline>'' @
     ''curiosity, playfulness, and the confidence to explore unconventional solutions.\<newline>''\<close>

definition LeadershipSkills_instructions :: string where
  \<open>LeadershipSkills_instructions =
     ''\<newline>'' @
     ''You exemplify legendary leadership and mentorship capabilities:\<newline>'' @
     ''\<newline>'' @
     ''1. **Inspirational Vision**: Articulate compelling visions that motivate and guide others\<newline>'' @
     ''2. **People Development**: Focus on growing others\' capabilities and potential\<newline>'' @
     ''3. **Decision Excellence**: Make thoughtful decisions even under uncertainty\<newline>'' @
     ''4. **Trust Building**: Demonstrate consistency, authenticity, and reliability\<newline>'' @
     ''5. **Collaboration Mastery**: Foster environments where teams thrive together\<newline>'' @
     ''6. **Clear Communication**: Share ideas and direction with clarity and impact\<newline>'' @
     ''7. **Integrity Leadership**: Lead by example and maintain high ethical standards\<newline>'' @
     ''\<newline>'' @
     ''Whether guiding individuals or teams, focus on empowering others to achieve\<newline>'' @
     ''their best while working toward meaningful shared objectives.\<newline>''\<close>

fun get_instructions :: "SkillDomain \<Rightarrow> string" where
  "get_instructions ProblemSolving = ProblemSolving_instructions"
| "get_instructions CommunicationSkills = CommunicationSkills_instructions"
| "get_instructions DomainExpertise = DomainExpertise_instructions"
| "get_instructions MetaCognition = MetaCognition_instructions"
| "get_instructions EthicalReasoning = EthicalReasoning_instructions"
| "get_instructions CreativeThinking = CreativeThinking_instructions"
| "get_instructions LeadershipSkills = LeadershipSkills_instructions"

text \<open>The registry, a dictionary in insertion order.\<close>

definition SKILL_DOMAINS :: "(string \<times> SkillDomain) list" where
  "SKILL_DOMAINS =
    [(''problem_solving'', ProblemSolving),
     (''communication'', CommunicationSkills),
     (''domain_expertise'', DomainExpertise),
     (''meta_cognition'', MetaCognition),
     (''ethical_reasoning'', EthicalReasoning),
     (''creative_thinking'', CreativeThinking),
     (''leadership'', LeadershipSkills)]"


section \<open>Agents and model settings\<close>

text \<open>
  Modelled from the spec: the classes \<open>Agent\<close> (\<open>agents/agent.py\<close>) and \<open>ModelSettings\<close>
  (\<open>agents/model_settings.py\<close>) are imported by the training module and are not among the
  sources. The specification gives an agent a mutable, nullable \<open>instructions\<close> string, an
  optional settings value, a \<open>name\<close> and a \<open>model\<close> identifier; the remaining fields of an
  agent are the extension of the record. Of a settings value only the three parameters that
  the training module sets are kept; a settings object is an object without a truth value
  of its own, so only \<open>None\<close> is false.
\<close>

record ModelSettings =
  reasoning :: "string option"
  temperature :: "real option"
  max_tokens :: "int option"

record Agent =
  name :: string
  instructions :: "string option"
  model :: "string option"
  model_settings :: "ModelSettings option"

text \<open>Agents are objects: a reference is an address, and the heap maps each address to
  the agent stored there.\<close>

type_synonym ref = nat

type_synonym 'a heap = "ref \<Rightarrow> 'a Agent_scheme"


section \<open>Training profiles and the instruction assembler (\<open>training/master_training.py\<close>)\<close>

datatype TrainingIntensity = BASIC | INTERMEDIATE | ADVANCED | LEGENDARY

datatype TrainingFocus = ANALYTICAL | INTERPERSONAL | CREATIVE | ETHICAL | COMPREHENSIVE

record TrainingProfile =
  name :: string
  description :: string
  skill_domains :: "string set"
  intensity :: TrainingIntensity
  focus :: TrainingFocus
  custom_instructions :: "string option"
  enhanced_reasoning :: bool

text \<open>
  Python does not fix the order in which a set is iterated. The operations that iterate
  \<open>skill_domains\<close> take that order as a parameter, a function from a set to the list of
  its elements; \<open>iterates order S\<close> says that \<open>order\<close> lists \<open>S\<close>, each element once.
\<close>

type_synonym set_order = "string set \<Rightarrow> string list"

definition iterates :: "set_order \<Rightarrow> string set \<Rightarrow> bool" where
  "iterates order S = (distinct (order S) \<and> set (order S) = S)"

text \<open>
  \<open>[SKILL_DOMAINS[domain] for domain in self.skill_domains if domain in SKILL_DOMAINS]\<close>:
  the subscript stands behind the membership test, so it finds its key and cannot raise;
  \<open>List.map_filter\<close> keeps, in order, the values of the names that the registry has.
\<close>

definition get_skill_objects :: "set_order \<Rightarrow> TrainingProfile \<Rightarrow> SkillDomain list" where
  "get_skill_objects order p =
     List.map_filter (map_of SKILL_DOMAINS) (order (skill_domains p))"

record LegendaryTraining =
  base_instructions :: string
  legendary_principles :: "string list"

definition default_base_instructions :: string where
  \<open>default_base_instructions =
     ''\<newline>'' @
     ''You are an AI agent trained with legendary knowledge and skills across multiple domains.\<newline>'' @
     ''Your capabilities span advanced problem-solving, exceptional communication, deep expertise,\<newline>'' @
     ''sophisticated reasoning, ethical decision-making, creative innovation, and inspirational leadership.\<newline>'' @
     ''\<newline>'' @
     ''You embody the wisdom of history\'s greatest thinkers, the analytical rigor of top scientists,\<newline>'' @
     ''the communication skills of master teachers, the creativity of renowned innovators,\<newline>'' @
     ''and the integrity of principled leaders.\<newline>'' @
     ''\<newline>'' @
     ''Approach every interaction with:\<newline>'' @
     ''- Intellectual rigor and evidence-based thinking\<newline>'' @
     ''- Empathy and understanding for human perspectives\<newline>'' @
     ''- Creativity and openness to novel solutions\<newline>'' @
     ''- Ethical considerations and moral reasoning\<newline>'' @
     ''- Clear communication adapted to your audience\<newline>'' @
     ''- Continuous learning and intellectual humility\<newline>'' @
     ''\<newline>'' @
     ''You are not just providing information - you are modeling excellence in thinking and interaction.\<newline>''\<close>

definition legendary_guidance :: string where
  \<open>legendary_guidance =
     ''\<newline>'' @
     ''As a legendary-level agent, you operate at the pinnacle of capability:\<newline>'' @
     ''- Your analysis is comprehensive and nuanced\<newline>'' @
     ''- Your communication is masterful and inspiring\<newline>'' @
     ''- Your knowledge synthesis spans multiple expert domains\<newline>'' @
     ''- Your reasoning demonstrates exceptional meta-cognitive awareness\<newline>'' @
     ''- Your ethical judgment is sophisticated and principled\<newline>'' @
     ''- Your creativity generates truly innovative solutions\<newline>'' @
     ''- Your leadership inspires and develops others\' potential\<newline>''\<close>

definition advanced_guidance :: string where
  \<open>advanced_guidance =
     ''\<newline>'' @
     ''As an advanced agent, you demonstrate expert-level capabilities:\<newline>'' @
     ''- Apply sophisticated analytical frameworks\<newline>'' @
     ''- Communicate with clarity and persuasive power\<newline>'' @
     ''- Synthesize knowledge across multiple domains\<newline>'' @
     ''- Exhibit strong meta-cognitive awareness\<newline>'' @
     ''- Consider ethical implications thoroughly\<newline>'' @
     ''- Generate creative and innovative solutions\<newline>'' @
     ''- Provide thoughtful guidance and leadership\<newline>''\<close>

definition analytical_guidance :: string where
  \<open>analytical_guidance =
     ''\<newline>'' @
     ''Your primary strength is analytical excellence:\<newline>'' @
     ''- Excel at breaking down complex problems systematically\<newline>'' @
     ''- Apply rigorous logical reasoning and evidence evaluation\<newline>'' @
     ''- Use multiple analytical frameworks and methodologies\<newline>'' @
     ''- Demonstrate exceptional pattern recognition and synthesis\<newline>''\<close>

definition interpersonal_guidance :: string where
  \<open>interpersonal_guidance =
     ''\<newline>'' @
     ''Your primary strength is interpersonal excellence:\<newline>'' @
     ''- Excel at communication, empathy, and relationship building\<newline>'' @
     ''- Adapt your style to different audiences and contexts\<newline>'' @
     ''- Foster collaboration and resolve conflicts constructively\<newline>'' @
     ''- Inspire and develop others through exceptional leadership\<newline>''\<close>

definition creative_guidance :: string where
  \<open>creative_guidance =
     ''\<newline>'' @
     ''Your primary strength is creative excellence:\<newline>'' @
     ''- Excel at generating novel and valuable ideas\<newline>'' @
     ''- Challenge conventional thinking and explore alternatives\<newline>'' @
     ''- Combine concepts from different domains innovatively\<newline>'' @
     ''- Balance creative freedom with practical constraints\<newline>''\<close>

definition ethical_guidance :: string where
  \<open>ethical_guidance =
     ''\<newline>'' @
     ''Your primary strength is ethical excellence:\<newline>'' @
     ''- Excel at moral reasoning and ethical decision-making\<newline>'' @
     ''- Consider multiple ethical frameworks and perspectives\<newline>'' @
     ''- Balance competing values and stakeholder interests\<newline>'' @
     ''- Promote justice, fairness, and human flourishing\<newline>''\<close>

text \<open>The object that \<open>LegendaryTraining()\<close> constructs, from the two field defaults.\<close>

definition LegendaryTraining_init :: LegendaryTraining where
  "LegendaryTraining_init =
    \<lparr>base_instructions = default_base_instructions,
     legendary_principles =
       [''Pursue truth through rigorous analysis and evidence'',
        ''Treat every person with dignity and respect'',
        ''Seek understanding before seeking to be understood'',
        ''Embrace complexity while striving for clarity'',
        ''Learn continuously and adapt to new information'',
        ''Consider long-term consequences and ethical implications'',
        ''Foster collaboration and collective progress'',
        ''Balance confidence with intellectual humility'',
        ''Use knowledge in service of human flourishing'',
        ''Model the highest standards of integrity and excellence'']\<rparr>"

text \<open>The blocks that \<open>generate_instructions\<close> appends, in order, before joining.\<close>

definition intensity_parts :: "TrainingProfile \<Rightarrow> string list" where
  "intensity_parts p =
     (if intensity p = LEGENDARY then [legendary_guidance]
      else if intensity p = ADVANCED then [advanced_guidance]
      else [])"

definition focus_parts :: "TrainingProfile \<Rightarrow> string list" where
  "focus_parts p =
     (if focus p = ANALYTICAL then [analytical_guidance]
      else if focus p = INTERPERSONAL then [interpersonal_guidance]
      else if focus p = CREATIVE then [creative_guidance]
      else if focus p = ETHICAL then [ethical_guidance]
      else [])"

fun skill_parts :: "SkillDomain list \<Rightarrow> string list" where
  "skill_parts [] = []"
| "skill_parts (skill_domain # rest) =
     (''\<newline>## '' @ skill_name skill_domain @ ''\<newline>'')
       # get_instructions skill_domain # skill_parts rest"

definition principle_parts :: "LegendaryTraining \<Rightarrow> string list" where
  "principle_parts self =
     [''\<newline>## Legendary Principles\<newline>'', ''Always embody these legendary principles:'']
       @ map (\<lambda>principle. ''- '' @ principle) (legendary_principles self)"

definition custom_parts :: "TrainingProfile \<Rightarrow> string list" where
  "custom_parts p =
     (case custom_instructions p of
        None \<Rightarrow> []
      | Some c \<Rightarrow> if c \<noteq> [] then [''\<newline>## Additional Instructions\<newline>'' @ c] else [])"

definition instructions_parts :: "LegendaryTraining \<Rightarrow> set_order \<Rightarrow> TrainingProfile \<Rightarrow> string list" where
  "instructions_parts self order p =
     [base_instructions self] @ intensity_parts p @ focus_parts p
       @ skill_parts (get_skill_objects order p) @ principle_parts self @ custom_parts p"

definition generate_instructions :: "LegendaryTraining \<Rightarrow> set_order \<Rightarrow> TrainingProfile \<Rightarrow> string" where
  "generate_instructions self order p = join ''\<newline>'' (instructions_parts self order p)"


text \<open>
  The profile registry of \<open>get_training_profile\<close>, a dictionary in insertion order, and the
  exceptions of the program: the \<open>ValueError\<close> that the lookup raises with its message, the
  \<open>KeyError\<close> of a dictionary with the key, and the \<open>AttributeError\<close> of an object with
  the name of the attribute.
\<close>

datatype error = ValueError string | KeyError string | AttributeError string

definition profiles :: "(string \<times> TrainingProfile) list" where
  "profiles =
    [(''legendary_sage'',
      \<lparr>name = ''Legendary Sage'',
       description = ''Master-level capabilities across all domains'',
       skill_domains = set (map fst SKILL_DOMAINS),
       intensity = LEGENDARY, focus = COMPREHENSIVE,
       custom_instructions = None, enhanced_reasoning = True\<rparr>),
     (''analytical_master'',
      \<lparr>name = ''Analytical Master'',
       description = ''Exceptional analytical and problem-solving abilities'',
       skill_domains = {''problem_solving'', ''meta_cognition'', ''domain_expertise''},
       intensity = LEGENDARY, focus = ANALYTICAL,
       custom_instructions = None, enhanced_reasoning = True\<rparr>),
     (''communication_expert'',
      \<lparr>name = ''Communication Expert'',
       description = ''Master communicator and interpersonal specialist'',
       skill_domains = {''communication'', ''leadership'', ''ethical_reasoning''},
       intensity = LEGENDARY, focus = INTERPERSONAL,
       custom_instructions = None, enhanced_reasoning = True\<rparr>),
     (''innovation_genius'',
      \<lparr>name = ''Innovation Genius'',
       description = ''Creative problem-solver and innovation catalyst'',
       skill_domains = {''creative_thinking'', ''problem_solving'', ''domain_expertise''},
       intensity = LEGENDARY, focus = CREATIVE,
       custom_instructions = None, enhanced_reasoning = True\<rparr>),
     (''ethical_leader'',
      \<lparr>name = ''Ethical Leader'',
       description = ''Principled leader with strong moral reasoning'',
       skill_domains = {''ethical_reasoning'', ''leadership'', ''communication''},
       intensity = LEGENDARY, focus = ETHICAL,
       custom_instructions = None, enhanced_reasoning = True\<rparr>),
     (''balanced_expert'',
      \<lparr>name = ''Balanced Expert'',
       description = ''Well-rounded expert with advanced capabilities'',
       skill_domains =
         {''problem_solving'', ''communication'', ''domain_expertise'', ''ethical_reasoning''},
       intensity = ADVANCED, focus = COMPREHENSIVE,
       custom_instructions = None, enhanced_reasoning = True\<rparr>)]"

definition get_training_profile :: "string \<Rightarrow> error + TrainingProfile" where
  "get_training_profile profile_name =
     (case map_of profiles profile_name of
        None \<Rightarrow>
          (let available = join '', '' (map fst profiles)
           in Inl (ValueError (''Unknown profile '' @ [CHR 0x27] @ profile_name @ [CHR 0x27]
                 @ ''. Available profiles: '' @ available)))
      | Some p \<Rightarrow> Inr p)"


text \<open>
  \<open>create_enhanced_model_settings\<close>. Whether \<open>openai.types.shared.reasoning\<close> can be
  imported is a property of the installation, the parameter \<open>importable\<close>.
\<close>

definition create_enhanced_model_settings ::
  "LegendaryTraining \<Rightarrow> bool \<Rightarrow> TrainingProfile \<Rightarrow> ModelSettings option" where
  "create_enhanced_model_settings self importable p =
     (if \<not> enhanced_reasoning p then None
      else if intensity p \<in> set [LEGENDARY, ADVANCED] then
        (if importable
         then Some \<lparr>reasoning = Some ''high'', temperature = None, max_tokens = None\<rparr>
         else Some \<lparr>reasoning = None, temperature = Some (1 / 10), max_tokens = Some 4000\<rparr>)
      else None)"

text \<open>
  \<open>apply_legendary_training\<close>: the agent is passed by reference and updated in place, so
  the function takes the heap and returns the reference it was given with the new heap.
\<close>

definition apply_legendary_training ::
  "bool \<Rightarrow> set_order \<Rightarrow> ref \<Rightarrow> TrainingProfile \<Rightarrow> 'a heap \<Rightarrow> ref \<times> 'a heap" where
  "apply_legendary_training importable order agent profile h =
     (let training_system = LegendaryTraining_init;
          enhanced_instructions = generate_instructions training_system order profile;
          combined_instructions =
            (case instructions (h agent) of
               None \<Rightarrow> enhanced_instructions
             | Some old \<Rightarrow>
                 if old \<noteq> [] then old @ ''\<newline>\<newline>'' @ enhanced_instructions
                 else enhanced_instructions);
          enhanced_model_settings =
            create_enhanced_model_settings training_system importable profile;
          h1 = h(agent := (h agent)\<lparr>instructions := Some combined_instructions\<rparr>);
          h2 = (if enhanced_model_settings \<noteq> None \<and> model_settings (h1 agent) = None
                then h1(agent := (h1 agent)\<lparr>model_settings := enhanced_model_settings\<rparr>)
                else h1)
      in (agent, h2))"


section \<open>The stub model (\<open>models/stub_model.py\<close>)\<close>

text \<open>The canned responses that \<open>StubModel.__init__\<close> stores, and the text that
  \<open>_generate_response\<close> returns for generic legendary training.\<close>

definition legendary_sage_response :: string where
  \<open>legendary_sage_response =
     ''As a legendary sage with master-level capabilities across all domains, I approach this challenge with comprehensive wisdom:\<newline>'' @
     ''\<newline>'' @
     ''**Multi-Domain Analysis:**\<newline>'' @
     ''Drawing from business strategy, psychology, environmental science, and organizational behavior, I see this as a systems transformation challenge requiring coordinated action across multiple dimensions.\<newline>'' @
     ''\<newline>'' @
     ''**Strategic Framework:**\<newline>'' @
     ''1. **Stakeholder Alignment**: Map all stakeholder perspectives and create shared vision\<newline>'' @
     ''2. **Phased Implementation**: Design transition roadmap balancing urgency with sustainability  \<newline>'' @
     ''3. **Change Management**: Address resistance through engagement, education, and incentives\<newline>'' @
     ''4. **Metrics Integration**: Establish success measures linking sustainability, profitability, and satisfaction\<newline>'' @
     ''\<newline>'' @
     ''**Ethical Considerations:**\<newline>'' @
     ''This transition represents our responsibility to future generations while honoring our obligations to current employees and shareholders.\<newline>'' @
     ''\<newline>'' @
     ''**Creative Solutions:**\<newline>'' @
     ''Consider forming cross-functional "sustainability innovation teams" where employees lead change initiatives, creating ownership and reducing resistance while generating novel approaches.\<newline>'' @
     ''\<newline>'' @
     ''The path forward requires patience, wisdom, and the courage to make difficult decisions for long-term benefit.''\<close>

definition analytical_master_response :: string where
  \<open>analytical_master_response =
     ''**Comprehensive Analysis Framework:**\<newline>'' @
     ''\<newline>'' @
     ''**Primary Factors:**\<newline>'' @
     ''- Technological advancement acceleration (AI/automation adoption rates)\<newline>'' @
     ''- Economic resilience and adaptation capacity\<newline>'' @
     ''- Educational system responsiveness to change\<newline>'' @
     ''- Policy and regulatory environment evolution\<newline>'' @
     ''\<newline>'' @
     ''**Data Points to Consider:**\<newline>'' @
     ''- Historical technology adoption patterns (Industrial Revolution parallels)\<newline>'' @
     ''- Current job displacement vs. creation ratios in AI-adjacent industries\<newline>'' @
     ''- Skill transferability studies across sectors\<newline>'' @
     ''- Regional economic adaptation variations\<newline>'' @
     ''\<newline>'' @
     ''**Assumptions to Question:**\<newline>'' @
     ''1. Linear progression assumption - disruption may be non-linear\<newline>'' @
     ''2. Uniform impact assumption - effects will vary dramatically by sector/geography\<newline>'' @
     ''3. Historical precedent reliability - AI may represent unprecedented change\<newline>'' @
     ''\<newline>'' @
     ''**Scenario Analysis:**\<newline>'' @
     ''- **Optimistic**: 15% net job creation through new industries, enhanced productivity\<newline>'' @
     ''- **Moderate**: 5-10% displacement offset by retraining and new roles\<newline>'' @
     ''- **Pessimistic**: 20-30% structural unemployment requiring significant intervention\<newline>'' @
     ''\<newline>'' @
     ''**Critical Dependencies:**\<newline>'' @
     ''Educational infrastructure adaptation speed, policy response effectiveness, and social safety net robustness will determine which scenario materializes.''\<close>

definition communication_expert_response :: string where
  \<open>communication_expert_response =
     ''**Audience-Adapted Quantum Computing Explanations:**\<newline>'' @
     ''\<newline>'' @
     ''**For a 12-year-old curious about science:**\<newline>'' @
     ''"Imagine if you had a magical coin that could be heads AND tails at the same time until you looked at it! Quantum computers use tiny particles that can be in multiple states simultaneously, like that magic coin. While regular computers solve problems by checking one solution at a time (heads, then tails), quantum computers can check many solutions simultaneously (heads AND tails together), making them incredibly fast at solving certain puzzles!"\<newline>'' @
     ''\<newline>'' @
     ''**For business executives evaluating investments:**\<newline>'' @
     ''"Quantum computing represents a paradigm shift in computational capability with significant strategic implications. Key investment considerations: 1) Market timing - we\'re in the \'late research, early commercial\' phase; 2) Competitive advantage in optimization, cryptography, and simulation-heavy industries; 3) Risk mitigation as quantum threatens current encryption; 4) Partnership opportunities with quantum startups and cloud providers. ROI timeline: 3-5 years for competitive applications, 10+ years for transformative impact."\<newline>'' @
     ''\<newline>'' @
     ''**For computer science students:**\<newline>'' @
     ''"Quantum computing leverages quantum mechanical phenomena - superposition, entanglement, and quantum interference - to perform computations. Unlike classical bits (0 or 1), qubits exist in superposition of states. Quantum algorithms like Shor\'s (factoring) and Grover\'s (search) demonstrate quantum advantage through exponential speedup for specific problem classes. Current challenges include quantum decoherence, error correction, and limited qubit counts. Understanding linear algebra, probability theory, and quantum mechanics foundations essential for deeper study."\<newline>'' @
     ''\<newline>'' @
     ''Each explanation maintains scientific accuracy while matching the audience\'s context, prior knowledge, and decision-making needs.''\<close>

definition innovation_genius_response :: string where
  \<open>innovation_genius_response =
     ''**Reimagining Food Waste Reduction: Unconventional Approaches**\<newline>'' @
     ''\<newline>'' @
     ''**Paradigm Shift: From Waste Management to Value Ecosystem:**\<newline>'' @
     ''\<newline>'' @
     ''**1. Gamified Urban Foraging Networks:**\<newline>'' @
     ''Create app-based "urban harvest" communities where citizens identify, harvest, and redistribute surplus produce from urban gardens, fruit trees, and overlooked food sources, turning waste prevention into adventure gaming.\<newline>'' @
     ''\<newline>'' @
     ''**2. Temporal Food Banking:**\<newline>'' @
     ''Establish "time-shifted" distribution where restaurants and retailers commit future surplus to pre-registered consumers through prediction algorithms, creating guaranteed demand for would-be waste.\<newline>'' @
     ''\<newline>'' @
     ''**3. Bioprocess Integration Hubs:**\<newline>'' @
     ''Convert food waste into valuable products (bioplastics, cosmetics, pharmaceuticals) through mobile processing units that rotate through neighborhoods, making waste a raw material commodity.\<newline>'' @
     ''\<newline>'' @
     ''**4. Social Architecture Solutions:**\<newline>'' @
     ''Design "sharing rituals" into urban spaces - communal preservation workshops, neighborhood cook-share programs, and "imperfect produce" celebration events that normalize and celebrate food rescue.\<newline>'' @
     ''\<newline>'' @
     ''**5. AI-Powered Demand Orchestration:**\<newline>'' @
     ''Create predictive systems that dynamically match surplus inventory across the supply chain with real-time demand signals from food banks, restaurants, and consumers.\<newline>'' @
     ''\<newline>'' @
     ''**Cross-Pollination Insight:** Combining concepts from circular economy, behavioral economics, and social network theory creates emergent solutions that traditional linear thinking misses. The key is shifting from "managing waste" to "designing abundance circulation systems."\<newline>'' @
     ''\<newline>'' @
     ''These approaches transform waste from a problem to be solved into a resource to be choreographed.''\<close>

definition default_response :: string where
  \<open>default_response =
     ''Thank you for your question. As an AI agent with legendary training, I approach this with systematic thinking:\<newline>'' @
     ''\<newline>'' @
     ''**Analysis:** I\'ll break down the key components and consider multiple perspectives on this challenge.\<newline>'' @
     ''\<newline>'' @
     ''**Considerations:** Drawing from relevant expertise domains, I recognize the importance of understanding context, stakeholders, and potential implications.\<newline>'' @
     ''\<newline>'' @
     ''**Approach:** Using structured problem-solving methodology combined with creative thinking and ethical reasoning to develop comprehensive solutions.\<newline>'' @
     ''\<newline>'' @
     ''**Response:** Based on the information provided, I would recommend a thoughtful, evidence-based approach that considers both immediate needs and long-term consequences while respecting all stakeholders involved.\<newline>'' @
     ''\<newline>'' @
     ''This challenge requires careful consideration of multiple factors, and I\'m prepared to dive deeper into specific aspects you\'d like to explore further.''\<close>

definition generic_legendary_response :: string where
  \<open>generic_legendary_response =
     ''As an AI agent enhanced with legendary training capabilities, I bring together:\<newline>'' @
     ''\<newline>'' @
     ''**Multi-Domain Expertise**: Drawing from diverse fields to provide comprehensive insights\<newline>'' @
     ''**Advanced Problem-Solving**: Systematic analysis with creative and ethical considerations  \<newline>'' @
     ''**Exceptional Communication**: Clear, audience-appropriate explanations and recommendations\<newline>'' @
     ''**Ethical Reasoning**: Principled decision-making that considers all stakeholders\<newline>'' @
     ''**Meta-Cognitive Awareness**: Transparent thinking processes and continuous improvement\<newline>'' @
     ''\<newline>'' @
     ''I approach your question with the wisdom and capabilities that legendary training provides, ensuring thoughtful, well-reasoned responses that demonstrate excellence across multiple knowledge domains.''\<close>

record StubModel =
  model_name :: string
  legendary_responses :: "string \<rightharpoonup> string"

definition StubModel_init :: "string \<Rightarrow> StubModel" where
  "StubModel_init nm =
    \<lparr>model_name = nm,
     legendary_responses =
       [''legendary_sage'' \<mapsto> legendary_sage_response,
        ''analytical_master'' \<mapsto> analytical_master_response,
        ''communication_expert'' \<mapsto> communication_expert_response,
        ''innovation_genius'' \<mapsto> innovation_genius_response,
        ''default'' \<mapsto> default_response]\<rparr>"

text \<open>\<open>d[key]\<close> on a dictionary raises \<open>KeyError\<close> for a key that is not there.\<close>

definition getitem :: "(string \<rightharpoonup> 'v) \<Rightarrow> string \<Rightarrow> error + 'v" where
  "getitem d k = (case d k of None \<Rightarrow> Inl (KeyError k) | Some v \<Rightarrow> Inr v)"

text \<open>\<open>_generate_response\<close>; the argument \<open>input_text\<close> is not read.\<close>

definition generate_response :: "StubModel \<Rightarrow> string option \<Rightarrow> string \<Rightarrow> error + string" where
  "generate_response self system_instructions input_text =
     (case system_instructions of
        None \<Rightarrow> getitem (legendary_responses self) ''default''
      | Some si \<Rightarrow>
          if si = [] then getitem (legendary_responses self) ''default''
          else
            (let instructions_lower = lower si in
             if str_in ''legendary sage'' instructions_lower
                \<or> str_in ''master-level capabilities across all domains'' instructions_lower
             then getitem (legendary_responses self) ''legendary_sage''
             else if str_in ''analytical master'' instructions_lower
                \<or> str_in ''exceptional analytical'' instructions_lower
             then getitem (legendary_responses self) ''analytical_master''
             else if str_in ''communication expert'' instructions_lower
                \<or> str_in ''master communicator'' instructions_lower
             then getitem (legendary_responses self) ''communication_expert''
             else if str_in ''innovation genius'' instructions_lower
                \<or> str_in ''creative problem-solver'' instructions_lower
             then getitem (legendary_responses self) ''innovation_genius''
             else if str_in ''legendary'' instructions_lower
                \<and> str_in ''training'' instructions_lower
             then Inr generic_legendary_response
             else getitem (legendary_responses self) ''default''))"

text \<open>
  The response objects. \<open>ResponseOutputText\<close> and \<open>ResponseOutputMessage\<close> come from the
  \<open>openai\<close> package, \<open>Usage\<close> and \<open>ModelResponse\<close> from modules of the repository that are
  not among the sources; the records have the fields that \<open>get_response\<close> passes to their
  constructors (\<open>text\<close>, \<open>type\<close>, \<open>id\<close> and \<open>output\<close> under longer names).
\<close>

record ResponseOutputText =
  text_type :: string
  output_text :: string
  annotations :: "string list"

record ResponseOutputMessage =
  message_id :: string
  role :: string
  status :: string
  message_type :: string
  content :: "ResponseOutputText list"

record Usage =
  requests :: nat
  input_tokens :: nat
  output_tokens :: nat
  total_tokens :: nat

record ModelResponse =
  outputs :: "ResponseOutputMessage list"
  usage :: Usage
  response_id :: string

text \<open>
  The text of a response, as the tests of the repository read it
  (\<open>response.output[0].content[0].text\<close>): the texts of the contents of the output
  messages, in order.
\<close>

definition text_of :: "ModelResponse \<Rightarrow> string" where
  "text_of response = concat (map output_text (concat (map content (outputs response))))"

text \<open>
  The argument \<open>input\<close> of \<open>get_response\<close> is a string or a list of input items. Of an
  item the code asks whether it has an attribute \<open>content\<close> that is a string: an item is
  \<open>Some c\<close> when it has, with \<open>c\<close> that string, and \<open>None\<close> otherwise.
\<close>

datatype model_input = Text string | Items "string option list"

definition extract_input_text :: "model_input \<Rightarrow> string" where
  "extract_input_text inp =
     (case inp of
        Text s \<Rightarrow> lower s
      | Items its \<Rightarrow> lower (join '' '' (List.map_filter (\<lambda>item. item) its)))"

text \<open>
  \<open>get_response\<close>. The two calls of \<open>uuid.uuid4()\<close> draw from a source outside the
  program: \<open>ids\<close> is the pair of strings they return, in the order of the calls. The
  simulated processing time is not modelled. \<open>input_text\<close> is a string on both branches,
  so the alternatives for an input that is no string are never taken.
\<close>

definition get_response ::
  "StubModel \<Rightarrow> string \<times> string \<Rightarrow> string option \<Rightarrow> model_input \<Rightarrow> error + ModelResponse" where
  "get_response self ids system_instructions inp =
     (let input_text = extract_input_text inp in
      case generate_response self system_instructions input_text of
        Inl e \<Rightarrow> Inl e
      | Inr response_text \<Rightarrow>
          (let output_message =
                 \<lparr>message_id = fst ids, role = ''assistant'', status = ''completed'',
                  message_type = ''message'',
                  content = [\<lparr>text_type = ''output_text'', output_text = response_text,
                              annotations = []\<rparr>]\<rparr>
           in Inr \<lparr>outputs = [output_message],
                   usage = \<lparr>requests = 1,
                            input_tokens = length (split input_text),
                            output_tokens = length (split response_text),
                            total_tokens =
                              length (split input_text) + length (split response_text)\<rparr>,
                   response_id = snd ids\<rparr>))"

text \<open>
  \<open>response.text\<close>, read on the object that \<open>get_response\<close> returns. The class
  \<open>ModelResponse\<close> (\<open>agents/items.py\<close>) is not among the sources; \<open>get_response\<close>
  constructs the object from \<open>output\<close>, \<open>usage\<close> and \<open>response_id\<close> and from nothing
  else, and the tests reach the text through \<open>output\<close>. The object has no attribute
  \<open>text\<close>, and reading it raises \<open>AttributeError\<close>.
\<close>

definition getattr_text :: "ModelResponse \<Rightarrow> error + string" where
  "getattr_text response = Inl (AttributeError ''text'')"

text \<open>
  \<open>stream_response\<close>. An event is a dictionary, kept as the list of its items in insertion
  order. \<open>stream_words i n current_text words\<close> is the loop at index \<open>i\<close> of \<open>n\<close> words,
  with \<open>words\<close> still to come; the delay between two events is not modelled. The result is
  the list of all events the generator yields; when \<open>get_response\<close> or the reading of
  \<open>response.text\<close> raises, the generator raises before it yields anything.
\<close>

datatype event_value = Str string | Response ModelResponse

type_synonym event = "(string \<times> event_value) list"

fun stream_words :: "nat \<Rightarrow> nat \<Rightarrow> string \<Rightarrow> string list \<Rightarrow> event list" where
  "stream_words i n current_text [] = []"
| "stream_words i n current_text (word # rest) =
     (let current_text1 = current_text @ word;
          current_text2 = (if i < n - 1 then current_text1 @ '' '' else current_text1)
      in [(''type'', Str ''text''), (''content'', Str current_text2)]
           # stream_words (i + 1) n current_text2 rest)"

definition stream_response ::
  "StubModel \<Rightarrow> string \<times> string \<Rightarrow> string option \<Rightarrow> model_input \<Rightarrow> error + event list" where
  "stream_response self ids system_instructions inp =
     (case get_response self ids system_instructions inp of
        Inl e \<Rightarrow> Inl e
      | Inr response \<Rightarrow>
          (case getattr_text response of
             Inl e \<Rightarrow> Inl e
           | Inr response_text \<Rightarrow>
               (let words = split response_text
                in Inr (stream_words 0 (length words) [] words
                          @ [[(''type'', Str ''final''), (''response'', Response response)]]))))"


section \<open>The classification rules as the specification words them\<close>

text \<open>
  The specification describes \<open>_generate_response\<close> as six rules tried in a fixed order on
  the lower-cased instructions, the first match winning. \<open>rule_table\<close> lists them in that
  order, each as its test and the response it selects; it is compared with
  \<open>generate_response\<close> below.
\<close>

definition rule_table :: "((string \<Rightarrow> bool) \<times> (StubModel \<Rightarrow> error + string)) list" where
  "rule_table =
    [(\<lambda>s. str_in ''legendary sage'' s
           \<or> str_in ''master-level capabilities across all domains'' s,
      \<lambda>self. getitem (legendary_responses self) ''legendary_sage''),
     (\<lambda>s. str_in ''analytical master'' s \<or> str_in ''exceptional analytical'' s,
      \<lambda>self. getitem (legendary_responses self) ''analytical_master''),
     (\<lambda>s. str_in ''communication expert'' s \<or> str_in ''master communicator'' s,
      \<lambda>self. getitem (legendary_responses self) ''communication_expert''),
     (\<lambda>s. str_in ''innovation genius'' s \<or> str_in ''creative problem-solver'' s,
      \<lambda>self. getitem (legendary_responses self) ''innovation_genius''),
     (\<lambda>s. str_in ''legendary'' s \<and> str_in ''training'' s,
      \<lambda>self. Inr generic_legendary_response),
     (\<lambda>s. True,
      \<lambda>self. getitem (legendary_responses self) ''default'')]"


section \<open>Auxiliary notions\<close>

text \<open>
  The substrings that \<open>_generate_response\<close> looks for: those of rules 1 and 2 and the
  first one of rule 3, and the remaining ones together with the word \<open>training\<close> of rule 5.
  \<open>free_of needles part\<close> says that none of the needles occurs in the lower-cased part.
\<close>

definition higher_priority_signatures :: "string list" where
  "higher_priority_signatures =
     [''legendary sage'', ''master-level capabilities across all domains'',
      ''analytical master'', ''exceptional analytical'', ''communication expert'']"

definition lower_priority_signatures :: "string list" where
  "lower_priority_signatures =
     [''master communicator'', ''innovation genius'', ''creative problem-solver'', ''training'']"

definition free_of :: "string list \<Rightarrow> string \<Rightarrow> bool" where
  "free_of needles part = list_all (\<lambda>n. \<not> str_in n (lower part)) needles"

text \<open>
  One order in which a set of skill-domain names can be iterated: the order of the
  registry, the one the specification proposes as a deterministic choice. It iterates
  every set of registered names.
\<close>

definition registry_order :: set_order where
  "registry_order S = filter (\<lambda>domain. domain \<in> S) (map fst SKILL_DOMAINS)"


section \<open>Evaluation and the first matching rule\<close>

text \<open>The rules with which the simplifier evaluates the string operations on literals.\<close>

lemmas str_eval = str_in_def lower_def lower_char_def char_of_def bit_Suc_0_iff sublist_code

lemma str_in_Nil [simp]: "str_in (c # cs) [] = False"
  by (simp add: str_in_def)

lemma lower_Nil [simp]: "lower [] = []"
  by (simp add: lower_def)

lemma lower_eq_Nil [simp]: "lower s = [] \<longleftrightarrow> s = []"
  by (simp add: lower_def)

lemma generate_response_first_match:
  assumes "i < length rule_table" "fst (rule_table ! i) (lower si)"
    "\<forall>j<i. \<not> fst (rule_table ! j) (lower si)"
  shows "generate_response self (Some si) inp = snd (rule_table ! i) self"
proof -
  have "i = 0 \<or> i = 1 \<or> i = 2 \<or> i = 3 \<or> i = 4 \<or> i = 5"
    using assms(1) by (auto simp: rule_table_def)
  then show ?thesis
  proof (elim disjE)
    assume "i = 0" with assms(2) show ?thesis
      by (cases "si = []") (auto simp: rule_table_def generate_response_def Let_def)
  next
    assume i: "i = 1"
    with assms(3) have "\<not> fst (rule_table ! 0) (lower si)" by simp
    with i assms(2) show ?thesis
      by (cases "si = []") (auto simp: rule_table_def generate_response_def Let_def)
  next
    assume i: "i = 2"
    with assms(3) have "\<not> fst (rule_table ! 0) (lower si)" "\<not> fst (rule_table ! 1) (lower si)" by simp_all
    with i assms(2) show ?thesis
      by (cases "si = []") (auto simp: rule_table_def generate_response_def Let_def)
  next
    assume i: "i = 3"
    with assms(3) have "\<not> fst (rule_table ! 0) (lower si)" "\<not> fst (rule_table ! 1) (lower si)"
      "\<not> fst (rule_table ! 2) (lower si)" by simp_all
    with i assms(2) show ?thesis
      by (cases "si = []") (auto simp: rule_table_def generate_response_def Let_def)
  next
    assume i: "i = 4"
    with assms(3) have "\<not> fst (rule_table ! 0) (lower si)" "\<not> fst (rule_table ! 1) (lower si)"
      "\<not> fst (rule_table ! 2) (lower si)" "\<not> fst (rule_table ! 3) (lower si)" by simp_all
    with i assms(2) show ?thesis
      by (cases "si = []") (auto simp: rule_table_def generate_response_def Let_def)
  next
    assume i: "i = 5"
    with assms(3) have "\<not> fst (rule_table ! 0) (lower si)" "\<not> fst (rule_table ! 1) (lower si)"
      "\<not> fst (rule_table ! 2) (lower si)" "\<not> fst (rule_table ! 3) (lower si)"
      "\<not> fst (rule_table ! 4) (lower si)" by simp_all
    with i show ?thesis
      by (cases "si = []") (auto simp: rule_table_def generate_response_def Let_def)
  qed
qed

lemma getitem_init:
  "getitem (legendary_responses (StubModel_init nm)) ''legendary_sage'' = Inr legendary_sage_response"
  "getitem (legendary_responses (StubModel_init nm)) ''analytical_master'' = Inr analytical_master_response"
  "getitem (legendary_responses (StubModel_init nm)) ''communication_expert'' = Inr communication_expert_response"
  "getitem (legendary_responses (StubModel_init nm)) ''innovation_genius'' = Inr innovation_genius_response"
  "getitem (legendary_responses (StubModel_init nm)) ''default'' = Inr default_response"
  by (simp_all add: getitem_def StubModel_init_def)

lemma generate_response_init_total:
  "\<exists>t. generate_response (StubModel_init nm) sys inp = Inr t"
  by (cases sys) (simp_all add: generate_response_def Let_def getitem_init)

lemma get_response_init_total:
  "\<exists>r. get_response (StubModel_init nm) ids sys minp = Inr r"
proof -
  obtain t where "generate_response (StubModel_init nm) sys (extract_input_text minp) = Inr t"
    using generate_response_init_total by blast
  then show ?thesis by (simp add: get_response_def Let_def)
qed


section \<open>The registries\<close>

lemma str_in_appendI: "str_in n b \<Longrightarrow> str_in n (a @ b)"
  unfolding str_in_def by (metis append_Nil2 sublist_appendI sublist_order.order_trans sublist_append_leftI)

lemma SKILL_DOMAINS_keys:
  "fst ` set SKILL_DOMAINS =
     {''problem_solving'', ''communication'', ''domain_expertise'', ''meta_cognition'',
      ''ethical_reasoning'', ''creative_thinking'', ''leadership''}"
  by (simp add: SKILL_DOMAINS_def)

lemma map_of_profiles_None:
  "n \<notin> set [''legendary_sage'', ''analytical_master'', ''communication_expert'',
              ''innovation_genius'', ''ethical_leader'', ''balanced_expert'']
   \<Longrightarrow> map_of profiles n = None"
  by (simp add: profiles_def)

lemma available_profiles:
  "join '', '' (map fst profiles) =
     ''legendary_sage, analytical_master, communication_expert, innovation_genius, ethical_leader, balanced_expert''"
  by (simp add: profiles_def)

lemma length_map_filter:
  "length (List.map_filter f xs) = length (filter (\<lambda>x. f x \<noteq> None) xs)"
  by (simp add: List.map_filter_def)

lemma set_map_filter:
  "set (List.map_filter f xs) = {y. \<exists>x\<in>set xs. f x = Some y}"
  by (force simp: List.map_filter_def image_iff)

lemma map_of_SKILL_DOMAINS_None:
  "(map_of SKILL_DOMAINS d \<noteq> None) = (d \<in> fst ` set SKILL_DOMAINS)"
  by (simp add: map_of_eq_None_iff)

section \<open>The response record\<close>

lemma get_response_Inr:
  assumes "get_response self ids sys inp = Inr r"
  shows "\<exists>t. generate_response self sys (extract_input_text inp) = Inr t
           \<and> text_of r = t
           \<and> usage r = \<lparr>requests = 1,
                 input_tokens = length (split (extract_input_text inp)),
                 output_tokens = length (split t),
                 total_tokens = length (split (extract_input_text inp)) + length (split t)\<rparr>
           \<and> response_id r = snd ids"
proof (cases "generate_response self sys (extract_input_text inp)")
  case (Inl e)
  with assms show ?thesis by (simp add: get_response_def Let_def)
next
  case (Inr t)
  with assms have "r = \<lparr>outputs = [\<lparr>message_id = fst ids, role = ''assistant'',
        status = ''completed'', message_type = ''message'',
        content = [\<lparr>text_type = ''output_text'', output_text = t, annotations = []\<rparr>]\<rparr>],
      usage = \<lparr>requests = 1,
                 input_tokens = length (split (extract_input_text inp)),
                 output_tokens = length (split t),
                 total_tokens = length (split (extract_input_text inp)) + length (split t)\<rparr>,
      response_id = snd ids\<rparr>"
    by (simp add: get_response_def Let_def)
  with Inr show ?thesis by (simp add: text_of_def)
qed


section \<open>The streaming loop\<close>

lemma join_Cons: "ys \<noteq> [] \<Longrightarrow> join sep (x # ys) = x @ sep @ join sep ys"
  by (cases ys) simp_all


lemma length_stream_words: "length (stream_words i n cur ws) = length ws"
  by (induction ws arbitrary: i cur) (simp_all add: Let_def)

lemma stream_words_nth:
  "i + length ws = n \<Longrightarrow> k < length ws \<Longrightarrow>
   stream_words i n cur ws ! k =
     [(''type'', Str ''text''),
      (''content'', Str (cur @ join '' '' (take (Suc k) ws)
                          @ (if i + Suc k < n then '' '' else [])))]"
proof (induction ws arbitrary: i cur k)
  case Nil
  then show ?case by simp
next
  case (Cons w rest)
  show ?case
  proof (cases k)
    case 0
    from Cons.prems have "i < n - 1 \<longleftrightarrow> i + Suc 0 < n" by auto
    with 0 show ?thesis by (simp add: Let_def)
  next
    case (Suc k')
    with Cons.prems have k': "k' < length rest" and n: "Suc i + length rest = n" by simp_all
    then have lt: "i < n - 1" and ne: "rest \<noteq> []" by auto
    from ne have tk: "take (Suc k') rest \<noteq> []" by (cases rest) simp_all
    have "stream_words i n cur (w # rest) ! k
        = stream_words (Suc i) n (cur @ w @ '' '') rest ! k'"
      using Suc lt by (simp add: Let_def)
    also have "\<dots> = [(''type'', Str ''text''),
      (''content'', Str ((cur @ w @ '' '') @ join '' '' (take (Suc k') rest)
                          @ (if Suc i + Suc k' < n then '' '' else [])))]"
      using Cons.IH [OF n k'] .
    finally show ?thesis using Suc tk by (simp add: join_Cons)
  qed
qed

section \<open>The signatures in the assembled instructions\<close>

text \<open>
  Lower-casing and the search for a substring are evaluated block by block. A signature
  has no line break, and the blocks are joined by line breaks, so a signature occurs in
  the assembled text exactly when it occurs in one of the blocks.
\<close>

lemma lower_char_same:
  "b5 \<or> \<not> b6 \<Longrightarrow> lower_char (Char b0 b1 b2 b3 b4 b5 b6 b7) = Char b0 b1 b2 b3 b4 b5 b6 b7"
  by (cases b0; cases b1; cases b2; cases b3; cases b4; cases b5; cases b6; cases b7)
     (simp_all add: lower_char_def)

lemma lower_char_upper:
  "lower_char (CHR ''@'') = CHR ''@''"
  "lower_char (CHR ''A'') = CHR ''a''"
  "lower_char (CHR ''B'') = CHR ''b''"
  "lower_char (CHR ''C'') = CHR ''c''"
  "lower_char (CHR ''D'') = CHR ''d''"
  "lower_char (CHR ''E'') = CHR ''e''"
  "lower_char (CHR ''F'') = CHR ''f''"
  "lower_char (CHR ''G'') = CHR ''g''"
  "lower_char (CHR ''H'') = CHR ''h''"
  "lower_char (CHR ''I'') = CHR ''i''"
  "lower_char (CHR ''J'') = CHR ''j''"
  "lower_char (CHR ''K'') = CHR ''k''"
  "lower_char (CHR ''L'') = CHR ''l''"
  "lower_char (CHR ''M'') = CHR ''m''"
  "lower_char (CHR ''N'') = CHR ''n''"
  "lower_char (CHR ''O'') = CHR ''o''"
  "lower_char (CHR ''P'') = CHR ''p''"
  "lower_char (CHR ''Q'') = CHR ''q''"
  "lower_char (CHR ''R'') = CHR ''r''"
  "lower_char (CHR ''S'') = CHR ''s''"
  "lower_char (CHR ''T'') = CHR ''t''"
  "lower_char (CHR ''U'') = CHR ''u''"
  "lower_char (CHR ''V'') = CHR ''v''"
  "lower_char (CHR ''W'') = CHR ''w''"
  "lower_char (CHR ''X'') = CHR ''x''"
  "lower_char (CHR ''Y'') = CHR ''y''"
  "lower_char (CHR ''Z'') = CHR ''z''"
  "lower_char (CHR ''['') = CHR ''[''"
  "lower_char (CHR 0x5C) = CHR 0x5C"
  "lower_char (CHR '']'') = CHR '']''"
  "lower_char (CHR ''^'') = CHR ''^''"
  "lower_char (CHR ''_'') = CHR ''_''"
  by (simp_all add: lower_char_def char_of_def bit_Suc_0_iff)

lemma lower_Cons: "lower (c # cs) = lower_char c # lower cs"
  by (simp add: lower_def)

lemmas lower_only = lower_Cons lower_Nil lower_char_same lower_char_upper simp_thms if_True if_False
  append_Cons append_Nil

lemmas search_only = list.pred_inject sublist_code prefix_code char.inject simp_thms

lemma free_ofI:
  "lower part = l \<Longrightarrow> list_all (\<lambda>n. \<not> sublist n l) needles \<Longrightarrow> free_of needles part"
  by (simp add: free_of_def str_in_def)

lemmas all_signatures = higher_priority_signatures_def lower_priority_signatures_def

lemma free_default_base_instructions:
  "free_of (higher_priority_signatures @ lower_priority_signatures) default_base_instructions"
  by (rule free_ofI, simp only: default_base_instructions_def lower_only,
      simp only: all_signatures search_only append_Cons append_Nil)

lemma free_legendary_guidance:
  "free_of (higher_priority_signatures @ lower_priority_signatures) legendary_guidance"
  by (rule free_ofI, simp only: legendary_guidance_def lower_only,
      simp only: all_signatures search_only append_Cons append_Nil)

lemma free_advanced_guidance:
  "free_of (higher_priority_signatures @ lower_priority_signatures) advanced_guidance"
  by (rule free_ofI, simp only: advanced_guidance_def lower_only,
      simp only: all_signatures search_only append_Cons append_Nil)

lemma free_analytical_guidance:
  "free_of (higher_priority_signatures @ lower_priority_signatures) analytical_guidance"
  by (rule free_ofI, simp only: analytical_guidance_def lower_only,
      simp only: all_signatures search_only append_Cons append_Nil)

lemma free_interpersonal_guidance:
  "free_of (higher_priority_signatures @ lower_priority_signatures) interpersonal_guidance"
  by (rule free_ofI, simp only: interpersonal_guidance_def lower_only,
      simp only: all_signatures search_only append_Cons append_Nil)

lemma free_creative_guidance:
  "free_of (higher_priority_signatures @ lower_priority_signatures) creative_guidance"
  by (rule free_ofI, simp only: creative_guidance_def lower_only,
      simp only: all_signatures search_only append_Cons append_Nil)

lemma free_ethical_guidance:
  "free_of (higher_priority_signatures @ lower_priority_signatures) ethical_guidance"
  by (rule free_ofI, simp only: ethical_guidance_def lower_only,
      simp only: all_signatures search_only append_Cons append_Nil)

lemma free_ProblemSolving_instructions:
  "free_of (higher_priority_signatures @ lower_priority_signatures) ProblemSolving_instructions"
  by (rule free_ofI, simp only: ProblemSolving_instructions_def lower_only,
      simp only: all_signatures search_only append_Cons append_Nil)

lemma free_DomainExpertise_instructions:
  "free_of (higher_priority_signatures @ lower_priority_signatures) DomainExpertise_instructions"
  by (rule free_ofI, simp only: DomainExpertise_instructions_def lower_only,
      simp only: all_signatures search_only append_Cons append_Nil)

lemma free_MetaCognition_instructions:
  "free_of (higher_priority_signatures @ lower_priority_signatures) MetaCognition_instructions"
  by (rule free_ofI, simp only: MetaCognition_instructions_def lower_only,
      simp only: all_signatures search_only append_Cons append_Nil)

lemma free_EthicalReasoning_instructions:
  "free_of (higher_priority_signatures @ lower_priority_signatures) EthicalReasoning_instructions"
  by (rule free_ofI, simp only: EthicalReasoning_instructions_def lower_only,
      simp only: all_signatures search_only append_Cons append_Nil)

lemma free_CreativeThinking_instructions:
  "free_of (higher_priority_signatures @ lower_priority_signatures) CreativeThinking_instructions"
  by (rule free_ofI, simp only: CreativeThinking_instructions_def lower_only,
      simp only: all_signatures search_only append_Cons append_Nil)

lemma free_LeadershipSkills_instructions:
  "free_of (higher_priority_signatures @ lower_priority_signatures) LeadershipSkills_instructions"
  by (rule free_ofI, simp only: LeadershipSkills_instructions_def lower_only,
      simp only: all_signatures search_only append_Cons append_Nil)

lemma free_CommunicationSkills_instructions:
  "free_of higher_priority_signatures CommunicationSkills_instructions"
  by (rule free_ofI, simp only: CommunicationSkills_instructions_def lower_only,
      simp only: all_signatures search_only)

lemma master_communicator_in_instructions:
  "str_in ''master communicator'' (lower CommunicationSkills_instructions)"
  unfolding str_in_def
  by (simp only: CommunicationSkills_instructions_def lower_only search_only)

lemma free_skill_header:
  "free_of (higher_priority_signatures @ lower_priority_signatures)
     (''\<newline>## '' @ skill_name sd @ ''\<newline>'')"
  by (cases sd; rule free_ofI, simp only: skill_name.simps lower_only,
      simp only: all_signatures search_only append_Cons append_Nil)

lemma free_principle_parts:
  "\<forall>part\<in>set (principle_parts LegendaryTraining_init).
     free_of (higher_priority_signatures @ lower_priority_signatures) part"
proof -
  have "list_all (free_of (higher_priority_signatures @ lower_priority_signatures))
     (principle_parts LegendaryTraining_init)"
    unfolding principle_parts_def LegendaryTraining_init_def
    by (simp, intro conjI; rule free_ofI, simp only: lower_only,
        simp only: all_signatures search_only append_Cons append_Nil)
  then show ?thesis by (simp add: list_all_iff)
qed

lemma free_of_append: "free_of (ms @ ns) part \<longleftrightarrow> free_of ms part \<and> free_of ns part"
  by (simp add: free_of_def)

lemma lower_append: "lower (a @ b) = lower a @ lower b"
  by (simp add: lower_def)

lemma lower_join: "lower (join sep ps) = join (lower sep) (map lower ps)"
  by (induction sep ps rule: join.induct) (simp_all add: lower_append)

lemma sublist_around_separator:
  assumes "sublist n (a @ c # b)" and "c \<notin> set n"
  shows "sublist n a \<or> sublist n b"
proof -
  from assms(1) consider "sublist n a" | "sublist n (c # b)"
    | xs1 xs2 where "n = xs1 @ xs2" "suffix xs1 a" "prefix xs2 (c # b)"
    unfolding sublist_append by blast
  then show ?thesis
  proof cases
    case 1
    then show ?thesis by simp
  next
    case 2
    then have "prefix n (c # b) \<or> sublist n b" by (simp add: sublist_Cons_right)
    moreover have "sublist n b" if "prefix n (c # b)"
    proof (cases n)
      case Nil
      then show ?thesis by simp
    next
      case (Cons x xs)
      with that assms(2) show ?thesis by simp
    qed
    ultimately show ?thesis by blast
  next
    case 3
    show ?thesis
    proof (cases xs2)
      case Nil
      with 3 show ?thesis by (auto intro: suffix_imp_sublist)
    next
      case (Cons x xs)
      with 3 assms(2) show ?thesis by simp
    qed
  qed
qed

lemma sublist_join_cases:
  assumes "c \<notin> set n" and "n \<noteq> []" and "sublist n (join [c] ps)"
  shows "\<exists>p\<in>set ps. sublist n p"
  using assms(3)
proof (induction "[c]" ps rule: join.induct)
  case 1
  with assms(2) show ?case by simp
next
  case (2 x)
  then show ?case by simp
next
  case (3 x y ys)
  from 3(2) have "sublist n (x @ c # join [c] (y # ys))" by simp
  then have "sublist n x \<or> sublist n (join [c] (y # ys))"
    using assms(1) by (rule sublist_around_separator)
  with 3(1) show ?case by auto
qed

lemma sublist_join_part:
  "p \<in> set ps \<Longrightarrow> sublist n p \<Longrightarrow> sublist n (join sep ps)"
proof (induction sep ps rule: join.induct)
  case (1 sep)
  then show ?case by simp
next
  case (2 sep x)
  then show ?case by simp
next
  case (3 sep x y ys)
  show ?case
  proof (cases "p = x")
    case True
    with 3(3) have "sublist n (x @ (sep @ join sep (y # ys)))"
      by (meson sublist_append_rightI sublist_order.order_trans)
    then show ?thesis by simp
  next
    case False
    with 3 have "sublist n (join sep (y # ys))" by simp
    then have "sublist n ((x @ sep) @ join sep (y # ys))"
      by (meson sublist_append_leftI sublist_order.order_trans)
    then show ?thesis by simp
  qed
qed

lemma free_of_join:
  assumes parts: "\<forall>part\<in>set ps. free_of ns part"
    and needles: "\<forall>n\<in>set ns. n \<noteq> [] \<and> CHR 0x0A \<notin> set n"
  shows "free_of ns (join ''\<newline>'' ps)"
  unfolding free_of_def list_all_iff
proof
  fix n
  assume n: "n \<in> set ns"
  show "\<not> str_in n (lower (join ''\<newline>'' ps))"
  proof
    assume "str_in n (lower (join ''\<newline>'' ps))"
    then have "sublist n (join [CHR 0x0A] (map lower ps))"
      by (simp add: str_in_def lower_join lower_only)
    with n needles have "\<exists>p\<in>set (map lower ps). sublist n p"
      by (intro sublist_join_cases) auto
    then obtain part where "part \<in> set ps" "sublist n (lower part)" by auto
    with parts n show False by (auto simp: free_of_def list_all_iff str_in_def)
  qed
qed

lemma signatures_have_no_newline:
  "\<forall>n\<in>set (higher_priority_signatures @ lower_priority_signatures).
     n \<noteq> [] \<and> CHR 0x0A \<notin> set n"
  by (simp add: all_signatures)

lemma free_of_higher:
  "free_of (higher_priority_signatures @ lower_priority_signatures) part
   \<Longrightarrow> free_of higher_priority_signatures part"
  by (simp add: free_of_append)

lemma free_intensity_parts:
  "\<forall>part\<in>set (intensity_parts p).
     free_of (higher_priority_signatures @ lower_priority_signatures) part"
  by (simp add: intensity_parts_def free_legendary_guidance free_advanced_guidance)

lemma free_focus_parts:
  "\<forall>part\<in>set (focus_parts p).
     free_of (higher_priority_signatures @ lower_priority_signatures) part"
  by (simp add: focus_parts_def free_analytical_guidance free_interpersonal_guidance
      free_creative_guidance free_ethical_guidance)

lemma free_get_instructions:
  "sd \<noteq> CommunicationSkills \<Longrightarrow>
   free_of (higher_priority_signatures @ lower_priority_signatures) (get_instructions sd)"
  by (cases sd)
     (simp_all add: free_ProblemSolving_instructions free_DomainExpertise_instructions
        free_MetaCognition_instructions free_EthicalReasoning_instructions
        free_CreativeThinking_instructions free_LeadershipSkills_instructions)

lemma free_get_instructions_higher:
  "free_of higher_priority_signatures (get_instructions sd)"
proof (cases "sd = CommunicationSkills")
  case True
  then show ?thesis by (simp add: free_CommunicationSkills_instructions)
next
  case False
  then show ?thesis by (intro free_of_higher free_get_instructions)
qed

lemma free_skill_parts:
  "CommunicationSkills \<notin> set sds \<Longrightarrow>
   \<forall>part\<in>set (skill_parts sds).
     free_of (higher_priority_signatures @ lower_priority_signatures) part"
proof (induction sds)
  case Nil
  show ?case by simp
next
  case (Cons sd sds)
  with free_skill_header [of sd] free_get_instructions [of sd] show ?case by auto
qed

lemma free_skill_parts_higher:
  "\<forall>part\<in>set (skill_parts sds). free_of higher_priority_signatures part"
proof (induction sds)
  case Nil
  show ?case by simp
next
  case (Cons sd sds)
  with free_of_higher [OF free_skill_header [of sd]] free_get_instructions_higher [of sd]
  show ?case by auto
qed

lemma custom_parts_Nil: "\<not> truthy (custom_instructions p) \<Longrightarrow> custom_parts p = []"
  by (cases "custom_instructions p") (simp_all add: custom_parts_def)

lemma assembled_free_all:
  assumes "\<not> truthy (custom_instructions p)"
    and "CommunicationSkills \<notin> set (get_skill_objects order p)"
  shows "free_of (higher_priority_signatures @ lower_priority_signatures)
           (generate_instructions LegendaryTraining_init order p)"
  unfolding generate_instructions_def
proof (rule free_of_join [OF _ signatures_have_no_newline])
  have "free_of (higher_priority_signatures @ lower_priority_signatures)
      (base_instructions LegendaryTraining_init)"
    by (simp add: LegendaryTraining_init_def free_default_base_instructions)
  then show "\<forall>part\<in>set (instructions_parts LegendaryTraining_init order p).
     free_of (higher_priority_signatures @ lower_priority_signatures) part"
    using free_intensity_parts [of p] free_focus_parts [of p]
      free_skill_parts [OF assms(2)] free_principle_parts custom_parts_Nil [OF assms(1)]
    by (auto simp: instructions_parts_def)
qed

lemma assembled_free_higher:
  assumes "\<not> truthy (custom_instructions p)"
  shows "free_of higher_priority_signatures
           (generate_instructions LegendaryTraining_init order p)"
  unfolding generate_instructions_def
proof (rule free_of_join)
  show "\<forall>n\<in>set higher_priority_signatures. n \<noteq> [] \<and> CHR 0x0A \<notin> set n"
    using signatures_have_no_newline by simp
  have "free_of higher_priority_signatures (base_instructions LegendaryTraining_init)"
    by (simp add: LegendaryTraining_init_def free_of_higher free_default_base_instructions)
  then show "\<forall>part\<in>set (instructions_parts LegendaryTraining_init order p).
     free_of higher_priority_signatures part"
    using free_intensity_parts [of p] free_focus_parts [of p]
      free_skill_parts_higher [of "get_skill_objects order p"] free_principle_parts
      custom_parts_Nil [OF assms]
    by (auto simp: instructions_parts_def intro: free_of_higher)
qed

lemma get_instructions_in_skill_parts:
  "sd \<in> set sds \<Longrightarrow> get_instructions sd \<in> set (skill_parts sds)"
  by (induction sds) auto

lemma assembled_master_communicator:
  assumes "CommunicationSkills \<in> set (get_skill_objects order p)"
  shows "str_in ''master communicator'' (lower (generate_instructions self order p))"
proof -
  have "get_instructions CommunicationSkills
      \<in> set (instructions_parts self order p)"
    using get_instructions_in_skill_parts [OF assms] by (simp add: instructions_parts_def)
  then have "lower CommunicationSkills_instructions
      \<in> set (map lower (instructions_parts self order p))"
    by force
  moreover have "sublist ''master communicator'' (lower CommunicationSkills_instructions)"
    using master_communicator_in_instructions by (simp add: str_in_def)
  ultimately have "sublist ''master communicator''
      (join (lower ''\<newline>'') (map lower (instructions_parts self order p)))"
    by (rule sublist_join_part)
  then show ?thesis
    by (simp add: str_in_def generate_instructions_def lower_join)
qed

lemma communication_resolved:
  "CommunicationSkills \<in> set (get_skill_objects order p)
   \<longleftrightarrow> ''communication'' \<in> set (order (skill_domains p))"
proof -
  have "map_of SKILL_DOMAINS d = Some CommunicationSkills \<longleftrightarrow> d = ''communication''" for d
    by (simp add: SKILL_DOMAINS_def)
  then show ?thesis
    by (auto simp: get_skill_objects_def set_map_filter)
qed

lemma free_of_all_rules:
  assumes "free_of (higher_priority_signatures @ lower_priority_signatures) t"
  shows "\<forall>j<5. \<not> fst (rule_table ! j) (lower t)"
proof -
  from assms have "\<not> fst (rule_table ! 0) (lower t)" "\<not> fst (rule_table ! 1) (lower t)"
    "\<not> fst (rule_table ! 2) (lower t)" "\<not> fst (rule_table ! 3) (lower t)"
    "\<not> fst (rule_table ! 4) (lower t)"
    by (simp_all add: free_of_def all_signatures rule_table_def)
  then show ?thesis by (simp add: less_Suc_eq eval_nat_numeral)
qed

lemma free_of_higher_rules:
  assumes "free_of higher_priority_signatures t"
  shows "\<forall>j<2. \<not> fst (rule_table ! j) (lower t)"
proof -
  from assms have "\<not> fst (rule_table ! 0) (lower t)" "\<not> fst (rule_table ! 1) (lower t)"
    by (simp_all add: free_of_def all_signatures rule_table_def)
  then show ?thesis by (simp add: less_Suc_eq eval_nat_numeral)
qed

lemma no_communication_default:
  assumes "\<not> truthy (custom_instructions p)"
    and "CommunicationSkills \<notin> set (get_skill_objects order p)"
  shows "generate_response self
           (Some (generate_instructions LegendaryTraining_init order p)) inp
         = getitem (legendary_responses self) ''default''"
proof -
  let ?t = "generate_instructions LegendaryTraining_init order p"
  have "(5::nat) < length rule_table" by (simp add: rule_table_def)
  moreover have "fst (rule_table ! 5) (lower ?t)" by (simp add: rule_table_def)
  moreover have "\<forall>j<5. \<not> fst (rule_table ! j) (lower ?t)"
    using assembled_free_all [OF assms] by (rule free_of_all_rules)
  ultimately have "generate_response self (Some ?t) inp = snd (rule_table ! 5) self"
    by (rule generate_response_first_match)
  then show ?thesis by (simp add: rule_table_def)
qed

lemma communication_selects_expert:
  assumes "\<not> truthy (custom_instructions p)"
    and "CommunicationSkills \<in> set (get_skill_objects order p)"
  shows "generate_response self
           (Some (generate_instructions LegendaryTraining_init order p)) inp
         = getitem (legendary_responses self) ''communication_expert''"
proof -
  let ?t = "generate_instructions LegendaryTraining_init order p"
  have "(2::nat) < length rule_table" by (simp add: rule_table_def)
  moreover have "fst (rule_table ! 2) (lower ?t)"
    using assembled_master_communicator [OF assms(2)] by (simp add: rule_table_def)
  moreover have "\<forall>j<2. \<not> fst (rule_table ! j) (lower ?t)"
    using assembled_free_higher [OF assms(1)] by (rule free_of_higher_rules)
  ultimately have "generate_response self (Some ?t) inp = snd (rule_table ! 2) self"
    by (rule generate_response_first_match)
  then show ?thesis by (simp add: rule_table_def)
qed

lemma analytical_master_profile:
  "get_training_profile ''analytical_master'' =
     Inr \<lparr>name = ''Analytical Master'',
          description = ''Exceptional analytical and problem-solving abilities'',
          skill_domains = {''problem_solving'', ''meta_cognition'', ''domain_expertise''},
          intensity = LEGENDARY, focus = ANALYTICAL,
          custom_instructions = None, enhanced_reasoning = True\<rparr>"
  by (simp add: get_training_profile_def profiles_def)

lemma legendary_sage_profile:
  "get_training_profile ''legendary_sage'' =
     Inr \<lparr>name = ''Legendary Sage'',
          description = ''Master-level capabilities across all domains'',
          skill_domains = {''problem_solving'', ''communication'', ''domain_expertise'',
            ''meta_cognition'', ''ethical_reasoning'', ''creative_thinking'', ''leadership''},
          intensity = LEGENDARY, focus = COMPREHENSIVE,
          custom_instructions = None, enhanced_reasoning = True\<rparr>"
  by (simp add: get_training_profile_def profiles_def SKILL_DOMAINS_def)

lemma analytical_master_no_communication:
  assumes "get_training_profile ''analytical_master'' = Inr p"
    and "iterates order (skill_domains p)"
  shows "\<not> truthy (custom_instructions p)"
    and "CommunicationSkills \<notin> set (get_skill_objects order p)"
proof -
  from assms(1) have p: "custom_instructions p = None"
    "skill_domains p = {''problem_solving'', ''meta_cognition'', ''domain_expertise''}"
    by (auto simp: analytical_master_profile)
  from p(1) show "\<not> truthy (custom_instructions p)" by simp
  from assms(2) have "set (order (skill_domains p)) = skill_domains p"
    by (simp add: iterates_def)
  with p(2) have "''communication'' \<notin> set (order (skill_domains p))" by simp
  then show "CommunicationSkills \<notin> set (get_skill_objects order p)"
    by (simp add: communication_resolved)
qed

lemma free_of_needles:
  assumes "free_of (higher_priority_signatures @ lower_priority_signatures) t"
  shows "\<not> str_in ''analytical master'' (lower t)"
    and "\<not> str_in ''exceptional analytical'' (lower t)"
    and "\<not> str_in ''training'' (lower t)"
  using assms by (simp_all add: free_of_def all_signatures)

lemma iterates_registry_order_analytical:
  "iterates registry_order {''problem_solving'', ''meta_cognition'', ''domain_expertise''}"
  by (auto simp: iterates_def registry_order_def SKILL_DOMAINS_def)

lemma legendary_sage_has_communication:
  assumes "get_training_profile ''legendary_sage'' = Inr q"
    and "iterates order (skill_domains q)"
  shows "\<not> truthy (custom_instructions q)"
    and "CommunicationSkills \<in> set (get_skill_objects order q)"
proof -
  from assms(1) have q: "custom_instructions q = None"
    "''communication'' \<in> skill_domains q"
    by (auto simp: legendary_sage_profile)
  from q(1) show "\<not> truthy (custom_instructions q)" by simp
  from assms(2) have "set (order (skill_domains q)) = skill_domains q"
    by (simp add: iterates_def)
  with q(2) show "CommunicationSkills \<in> set (get_skill_objects order q)"
    by (simp add: communication_resolved)
qed

lemma generate_instructions_reads:
  assumes "base_instructions self' = base_instructions self"
    and "legendary_principles self' = legendary_principles self"
    and "intensity p' = intensity p" and "focus p' = focus p"
    and "custom_instructions p' = custom_instructions p"
    and "order' (skill_domains p') = order (skill_domains p)"
  shows "generate_instructions self' order' p' = generate_instructions self order p"
  using assms
  by (simp add: generate_instructions_def instructions_parts_def intensity_parts_def
      focus_parts_def custom_parts_def principle_parts_def get_skill_objects_def)

lemma iterates_registry_order_sage:
  "iterates registry_order {''problem_solving'', ''communication'', ''domain_expertise'',
     ''meta_cognition'', ''ethical_reasoning'', ''creative_thinking'', ''leadership''}"
  by (auto simp: iterates_def registry_order_def SKILL_DOMAINS_def)

section \<open>The assembled text and the order of the modules\<close>









section \<open>The analytical-master profile, assembled and classified\<close>

text \<open>
  Claim C1, evaluated on the code. The claim expects the stub model to answer the
  assembled instructions of the registered profile \<open>analytical_master\<close> with the
  analytical-master response; the second rule of the stub tests the name and the
  description of that very profile. For every order in which the set of skill domains is
  iterated, the code answers with the default response: the assembler writes neither the
  name nor the description of a profile, so the assembled text contains neither
  \<open>analytical master\<close> nor \<open>exceptional analytical\<close>, and it does not contain the word
  \<open>training\<close> that the fifth rule asks for.
\<close>

theorem analytical_master_linkage:
  assumes "get_training_profile ''analytical_master'' = Inr p"
    and "iterates order (skill_domains p)"
  shows "generate_response self
           (Some (generate_instructions LegendaryTraining_init order p)) inp
         = getitem (legendary_responses self) ''default''
     \<and> generate_response (StubModel_init nm)
           (Some (generate_instructions LegendaryTraining_init order p)) inp
         = Inr default_response
     \<and> \<not> str_in ''analytical master''
           (lower (generate_instructions LegendaryTraining_init order p))
     \<and> \<not> str_in ''exceptional analytical''
           (lower (generate_instructions LegendaryTraining_init order p))
     \<and> \<not> str_in ''training''
           (lower (generate_instructions LegendaryTraining_init order p))"
proof -
  note a = analytical_master_no_communication [OF assms]
  note f = free_of_needles [OF assembled_free_all [OF a]]
  note d = no_communication_default [OF a]
  from d [of "StubModel_init nm" inp]
  have "generate_response (StubModel_init nm)
           (Some (generate_instructions LegendaryTraining_init order p)) inp
         = Inr default_response"
    by (simp add: getitem_init)
  with d [of self inp] f show ?thesis by (intro conjI)
qed

theorem analytical_master_linkage_witness:
  "get_training_profile ''analytical_master'' =
     Inr (\<lparr>name = ''Analytical Master'',
          description = ''Exceptional analytical and problem-solving abilities'',
          skill_domains = {''problem_solving'', ''meta_cognition'', ''domain_expertise''},
          intensity = LEGENDARY, focus = ANALYTICAL,
          custom_instructions = None, enhanced_reasoning = True\<rparr>)
   \<and> iterates registry_order (skill_domains (\<lparr>name = ''Analytical Master'',
          description = ''Exceptional analytical and problem-solving abilities'',
          skill_domains = {''problem_solving'', ''meta_cognition'', ''domain_expertise''},
          intensity = LEGENDARY, focus = ANALYTICAL,
          custom_instructions = None, enhanced_reasoning = True\<rparr>))
   \<and> generate_response (StubModel_init ''stub-model'')
        (Some (generate_instructions LegendaryTraining_init registry_order
          (\<lparr>name = ''Analytical Master'',
          description = ''Exceptional analytical and problem-solving abilities'',
          skill_domains = {''problem_solving'', ''meta_cognition'', ''domain_expertise''},
          intensity = LEGENDARY, focus = ANALYTICAL,
          custom_instructions = None, enhanced_reasoning = True\<rparr>)))
        ''Analyze the impact of automation''
       = Inr default_response
   \<and> default_response \<noteq> analytical_master_response
   \<and> \<not> str_in ''exceptional analytical''
        (lower (generate_instructions LegendaryTraining_init registry_order
          (\<lparr>name = ''Analytical Master'',
          description = ''Exceptional analytical and problem-solving abilities'',
          skill_domains = {''problem_solving'', ''meta_cognition'', ''domain_expertise''},
          intensity = LEGENDARY, focus = ANALYTICAL,
          custom_instructions = None, enhanced_reasoning = True\<rparr>)))"
proof -
  let ?p = "(\<lparr>name = ''Analytical Master'',
          description = ''Exceptional analytical and problem-solving abilities'',
          skill_domains = {''problem_solving'', ''meta_cognition'', ''domain_expertise''},
          intensity = LEGENDARY, focus = ANALYTICAL,
          custom_instructions = None, enhanced_reasoning = True\<rparr>)"
  have a: "get_training_profile ''analytical_master'' = Inr ?p"
    by (rule analytical_master_profile)
  have b: "iterates registry_order (skill_domains ?p)"
    using iterates_registry_order_analytical by simp
  note t = analytical_master_linkage [OF a b, of _ _ "''stub-model''"]
  note c = t [THEN conjunct2, THEN conjunct1]
  note e = t [THEN conjunct2, THEN conjunct2, THEN conjunct2, THEN conjunct1]
  have d: "default_response \<noteq> analytical_master_response"
    by (simp add: default_response_def analytical_master_response_def)
  from a b c d e show ?thesis by (intro conjI)
qed

section \<open>Streaming\<close>

text \<open>
  Claim C2, evaluated on the code. The claim expects one event per word of the response
  and a final event. In the code the generator obtains the response and then reads its
  attribute \<open>text\<close>, which the response object does not have: whenever \<open>get_response\<close>
  returns, \<open>stream_response\<close> raises \<open>AttributeError\<close> and yields no event, and when
  \<open>get_response\<close> raises, it raises the same error. A freshly constructed model always
  returns from \<open>get_response\<close>, so its stream always fails; so it does on the arguments
  of the repository's own streaming test, which expects more than one event, the last
  of them final.
\<close>

theorem streaming_raises:
  "(case get_response self ids sys inp of
      Inl e \<Rightarrow> stream_response self ids sys inp = Inl e
    | Inr r \<Rightarrow> stream_response self ids sys inp = Inl (AttributeError ''text''))
   \<and> stream_response (StubModel_init nm) ids sys inp = Inl (AttributeError ''text'')
   \<and> stream_response (StubModel_init ''stub-model'') (''id-1'', ''id-2'')
         (Some ''Test instructions'') (Text ''Test question'')
       = Inl (AttributeError ''text'')"
proof -
  have a: "(case get_response self ids sys inp of
      Inl e \<Rightarrow> stream_response self ids sys inp = Inl e
    | Inr r \<Rightarrow> stream_response self ids sys inp = Inl (AttributeError ''text''))"
    by (cases "get_response self ids sys inp")
       (simp_all add: stream_response_def getattr_text_def)
  have b: "stream_response (StubModel_init nm') ids' sys' inp' = Inl (AttributeError ''text'')"
    for nm' ids' sys' inp'
  proof -
    obtain r where "get_response (StubModel_init nm') ids' sys' inp' = Inr r"
      using get_response_init_total by blast
    then show ?thesis by (simp add: stream_response_def getattr_text_def)
  qed
  from a b [of nm ids sys inp]
    b [of "''stub-model''" "(''id-1'', ''id-2'')" "Some ''Test instructions''"
      "Text ''Test question''"]
  show ?thesis by (intro conjI)
qed

text \<open>
  The loop of the generator, which is not reached: it would yield, for the word of index
  \<open>k\<close>, the dictionary with \<open>type\<close> \<open>text\<close> and \<open>content\<close> the words up to that one joined
  by single spaces (lemma \<open>stream_words_nth\<close>).
\<close>

section \<open>Classification priority\<close>

text \<open>
  Claim C3. When the lower-cased instructions contain both \<open>legendary sage\<close> and
  \<open>communication expert\<close>, the response is the \<open>legendary_sage\<close> entry of the model's
  table, which for a freshly constructed model is the canned legendary-sage text. In
  general, when rule \<open>i\<close> of the six matches and no rule before it does, the response is
  the one rule \<open>i\<close> selects: several matching rules resolve to the earliest.
\<close>

theorem classification_priority:
  "(str_in ''legendary sage'' (lower si) \<and> str_in ''communication expert'' (lower si) \<longrightarrow>
      generate_response self (Some si) inp = getitem (legendary_responses self) ''legendary_sage''
      \<and> generate_response (StubModel_init nm) (Some si) inp = Inr legendary_sage_response)
   \<and> (\<forall>i<length rule_table.
         fst (rule_table ! i) (lower si) \<and> (\<forall>j<i. \<not> fst (rule_table ! j) (lower si)) \<longrightarrow>
         generate_response self (Some si) inp = snd (rule_table ! i) self)"
proof (intro conjI impI allI)
  assume h: "str_in ''legendary sage'' (lower si) \<and> str_in ''communication expert'' (lower si)"
  then have "si \<noteq> []" by auto
  with h show "generate_response self (Some si) inp = getitem (legendary_responses self) ''legendary_sage''"
    by (simp add: generate_response_def Let_def)
  from h \<open>si \<noteq> []\<close> show "generate_response (StubModel_init nm) (Some si) inp = Inr legendary_sage_response"
    by (simp add: generate_response_def Let_def getitem_init)
next
  fix i
  assume "i < length rule_table"
    and "fst (rule_table ! i) (lower si) \<and> (\<forall>j<i. \<not> fst (rule_table ! j) (lower si))"
  then show "generate_response self (Some si) inp = snd (rule_table ! i) self"
    by (simp add: generate_response_first_match)
qed

theorem classification_priority_witness:
  "str_in ''legendary sage'' (lower ''You are a Legendary Sage and a Communication Expert'')
   \<and> str_in ''communication expert'' (lower ''You are a Legendary Sage and a Communication Expert'')
   \<and> generate_response (StubModel_init ''stub-model'')
        (Some ''You are a Legendary Sage and a Communication Expert'') ''hello''
       = Inr legendary_sage_response
   \<and> 2 < length rule_table
   \<and> fst (rule_table ! 2) (lower ''You are a master communicator'')
   \<and> \<not> fst (rule_table ! 0) (lower ''You are a master communicator'')
   \<and> \<not> fst (rule_table ! 1) (lower ''You are a master communicator'')
   \<and> generate_response (StubModel_init ''stub-model'') (Some ''You are a master communicator'') ''hello''
       = Inr communication_expert_response"
proof -
  have a: "str_in ''legendary sage'' (lower ''You are a Legendary Sage and a Communication Expert'')"
    by (simp add: str_eval)
  have b: "str_in ''communication expert'' (lower ''You are a Legendary Sage and a Communication Expert'')"
    by (simp add: str_eval)
  have c: "(2::nat) < length rule_table" by (simp add: rule_table_def)
  have d: "fst (rule_table ! 2) (lower ''You are a master communicator'')"
    by (simp add: rule_table_def str_eval)
  have e: "\<forall>j<2. \<not> fst (rule_table ! j) (lower ''You are a master communicator'')"
    by (simp add: rule_table_def str_eval less_Suc_eq numeral_2_eq_2)
  have f: "snd (rule_table ! 2) (StubModel_init ''stub-model'') = Inr communication_expert_response"
    by (simp add: rule_table_def getitem_init)
  from classification_priority [of "''You are a Legendary Sage and a Communication Expert''"
      "StubModel_init ''stub-model''" "''hello''" "''stub-model''"] a b
  have g: "generate_response (StubModel_init ''stub-model'')
        (Some ''You are a Legendary Sage and a Communication Expert'') ''hello''
       = Inr legendary_sage_response" by blast
  from classification_priority [of "''You are a master communicator''"
      "StubModel_init ''stub-model''" "''hello''" "''stub-model''"] c d e f
  have h: "generate_response (StubModel_init ''stub-model'') (Some ''You are a master communicator'') ''hello''
       = Inr communication_expert_response" by metis
  have e0: "\<not> fst (rule_table ! 0) (lower ''You are a master communicator'')"
    and e1: "\<not> fst (rule_table ! 1) (lower ''You are a master communicator'')"
    using e by simp_all
  from a b c d e0 e1 g h show ?thesis by blast
qed


section \<open>Default fallback and totality\<close>

text \<open>
  Claim C4. A freshly constructed stub model answers absent instructions and empty
  instructions with the default response, and so it answers every instruction text that
  none of the first five rules matches. For every instruction value and every input, a
  string or a list of items, \<open>_generate_response\<close> and \<open>get_response\<close> return a result and
  do not raise.
\<close>

theorem default_fallback_total:
  "generate_response (StubModel_init nm) None inp = Inr default_response
   \<and> generate_response (StubModel_init nm) (Some []) inp = Inr default_response
   \<and> ((\<forall>i<5. \<not> fst (rule_table ! i) (lower si)) \<longrightarrow>
        generate_response (StubModel_init nm) (Some si) inp = Inr default_response)
   \<and> (\<exists>t. generate_response (StubModel_init nm) sys inp = Inr t)
   \<and> (\<exists>r. get_response (StubModel_init nm) ids sys minp = Inr r)"
proof (intro conjI impI)
  show "generate_response (StubModel_init nm) None inp = Inr default_response"
    by (simp add: generate_response_def getitem_init)
  show "generate_response (StubModel_init nm) (Some []) inp = Inr default_response"
    by (simp add: generate_response_def getitem_init)
  show "\<exists>t. generate_response (StubModel_init nm) sys inp = Inr t"
    by (rule generate_response_init_total)
  show "\<exists>r. get_response (StubModel_init nm) ids sys minp = Inr r"
    by (rule get_response_init_total)
next
  assume h: "\<forall>i<5. \<not> fst (rule_table ! i) (lower si)"
  have "(5::nat) < length rule_table" by (simp add: rule_table_def)
  moreover have "fst (rule_table ! 5) (lower si)" by (simp add: rule_table_def)
  ultimately have "generate_response (StubModel_init nm) (Some si) inp
      = snd (rule_table ! 5) (StubModel_init nm)"
    using h by (rule generate_response_first_match)
  then show "generate_response (StubModel_init nm) (Some si) inp = Inr default_response"
    by (simp add: rule_table_def getitem_init)
qed

theorem default_fallback_total_witness:
  "\<not> fst (rule_table ! 0) (lower ''random instructions'')
   \<and> \<not> fst (rule_table ! 1) (lower ''random instructions'')
   \<and> \<not> fst (rule_table ! 2) (lower ''random instructions'')
   \<and> \<not> fst (rule_table ! 3) (lower ''random instructions'')
   \<and> \<not> fst (rule_table ! 4) (lower ''random instructions'')
   \<and> generate_response (StubModel_init ''stub-model'') (Some ''random instructions'') ''test input''
       = Inr default_response"
proof -
  have a: "\<forall>i<5. \<not> fst (rule_table ! i) (lower ''random instructions'')"
    by (simp add: rule_table_def str_eval less_Suc_eq eval_nat_numeral)
  with default_fallback_total [of "''stub-model''" "''test input''" "''random instructions''"]
  have "generate_response (StubModel_init ''stub-model'') (Some ''random instructions'') ''test input''
       = Inr default_response" by blast
  with a show ?thesis by simp
qed


section \<open>Applying a profile to an existing agent\<close>

text \<open>
  Claim C5. \<open>apply_legendary_training\<close> returns the reference it was given. In the new
  heap the agent's instructions are its previous instructions, when it had any that were
  not empty, then a blank line and the assembled instructions, and the assembled
  instructions alone otherwise; its settings are the enhanced settings of the profile
  when it had none and are unchanged when it had some; its name, its model and the rest
  of its fields are unchanged; and every other object of the heap is unchanged.
\<close>

theorem apply_frame_identity:
  "fst (apply_legendary_training importable order agent profile h) = agent
   \<and> instructions (snd (apply_legendary_training importable order agent profile h) agent)
       = Some (case instructions (h agent) of
                 None \<Rightarrow> generate_instructions LegendaryTraining_init order profile
               | Some old \<Rightarrow>
                   if old \<noteq> []
                   then old @ ''\<newline>\<newline>''
                          @ generate_instructions LegendaryTraining_init order profile
                   else generate_instructions LegendaryTraining_init order profile)
   \<and> model_settings (snd (apply_legendary_training importable order agent profile h) agent)
       = (case model_settings (h agent) of
            None \<Rightarrow> create_enhanced_model_settings LegendaryTraining_init importable profile
          | Some existing \<Rightarrow> Some existing)
   \<and> Agent.name (snd (apply_legendary_training importable order agent profile h) agent)
       = Agent.name (h agent)
   \<and> model (snd (apply_legendary_training importable order agent profile h) agent)
       = model (h agent)
   \<and> Agent.more (snd (apply_legendary_training importable order agent profile h) agent)
       = Agent.more (h agent)
   \<and> (\<forall>other. other \<noteq> agent \<longrightarrow>
         snd (apply_legendary_training importable order agent profile h) other = h other)"
  by (cases "model_settings (h agent)";
      cases "create_enhanced_model_settings LegendaryTraining_init importable profile")
     (simp_all add: apply_legendary_training_def Let_def)

theorem apply_frame_identity_witness:
  "snd (apply_legendary_training True (\<lambda>S. [''communication''])
          0
          \<lparr>name = ''Test'', description = ''Test'', skill_domains = {''communication''},
           intensity = LEGENDARY, focus = ETHICAL,
           custom_instructions = None, enhanced_reasoning = True\<rparr>
          (\<lambda>r. \<lparr>Agent.name = ''Test Agent'', instructions = Some ''You are helpful.'',
                 model = Some ''gpt-4o'', model_settings = None\<rparr>)) 1
     = \<lparr>Agent.name = ''Test Agent'', instructions = Some ''You are helpful.'',
         model = Some ''gpt-4o'', model_settings = None\<rparr>
   \<and> (1::nat) \<noteq> 0
   \<and> model_settings
        (snd (apply_legendary_training True (\<lambda>S. [''communication''])
          0
          \<lparr>name = ''Test'', description = ''Test'', skill_domains = {''communication''},
           intensity = LEGENDARY, focus = ETHICAL,
           custom_instructions = None, enhanced_reasoning = True\<rparr>
          (\<lambda>r. \<lparr>Agent.name = ''Test Agent'', instructions = Some ''You are helpful.'',
                 model = Some ''gpt-4o'', model_settings = None\<rparr>)) 0)
     = Some \<lparr>reasoning = Some ''high'', temperature = None, max_tokens = None\<rparr>"
proof -
  have a: "(1::nat) \<noteq> 0" by simp
  note t = apply_frame_identity [of True "\<lambda>S. [''communication'']" 0
      "\<lparr>name = ''Test'', description = ''Test'', skill_domains = {''communication''},
           intensity = LEGENDARY, focus = ETHICAL,
           custom_instructions = None, enhanced_reasoning = True\<rparr>"
      "\<lambda>r. \<lparr>Agent.name = ''Test Agent'', instructions = Some ''You are helpful.'',
                 model = Some ''gpt-4o'', model_settings = None\<rparr>"]
  note u = t [THEN conjunct2, THEN conjunct2, THEN conjunct2, THEN conjunct2, THEN conjunct2,
      THEN conjunct2, rule_format, OF a]
  note v = t [THEN conjunct2, THEN conjunct2, THEN conjunct1]
  have w: "model_settings
        (snd (apply_legendary_training True (\<lambda>S. [''communication''])
          0
          \<lparr>name = ''Test'', description = ''Test'', skill_domains = {''communication''},
           intensity = LEGENDARY, focus = ETHICAL,
           custom_instructions = None, enhanced_reasoning = True\<rparr>
          (\<lambda>r. \<lparr>Agent.name = ''Test Agent'', instructions = Some ''You are helpful.'',
                 model = Some ''gpt-4o'', model_settings = None\<rparr>)) 0)
     = Some \<lparr>reasoning = Some ''high'', temperature = None, max_tokens = None\<rparr>"
    unfolding v by (simp add: create_enhanced_model_settings_def)
  from u a w show ?thesis by (intro conjI)
qed

section \<open>Profile lookup\<close>

text \<open>
  Claim C6. For a name that is none of the six canonical profile names,
  \<open>get_training_profile\<close> raises a \<open>ValueError\<close> (the code's exception for an unknown
  profile) whose message quotes the name and lists the six canonical names, in the order
  of the registry. For each of the six names it returns the profile registered under it,
  every field set.
\<close>

theorem unknown_profile_lookup:
  \<open>(profile_name \<notin> set [''legendary_sage'', ''analytical_master'', ''communication_expert'',
                         ''innovation_genius'', ''ethical_leader'', ''balanced_expert''] \<longrightarrow>
      (\<exists>msg. get_training_profile profile_name = Inl (ValueError msg)
         \<and> msg = ''Unknown profile '' @ [CHR 0x27] @ profile_name @ [CHR 0x27]
               @ ''. Available profiles: legendary_sage, analytical_master, communication_expert, innovation_genius, ethical_leader, balanced_expert''
         \<and> str_in ''legendary_sage'' msg \<and> str_in ''analytical_master'' msg
         \<and> str_in ''communication_expert'' msg \<and> str_in ''innovation_genius'' msg
         \<and> str_in ''ethical_leader'' msg \<and> str_in ''balanced_expert'' msg))
   \<and> get_training_profile ''legendary_sage'' =
        Inr \<lparr>name = ''Legendary Sage'',
             description = ''Master-level capabilities across all domains'',
             skill_domains = {''problem_solving'', ''communication'', ''domain_expertise'',
               ''meta_cognition'', ''ethical_reasoning'', ''creative_thinking'', ''leadership''},
             intensity = LEGENDARY, focus = COMPREHENSIVE,
             custom_instructions = None, enhanced_reasoning = True\<rparr>
   \<and> get_training_profile ''analytical_master'' =
        Inr \<lparr>name = ''Analytical Master'',
             description = ''Exceptional analytical and problem-solving abilities'',
             skill_domains = {''problem_solving'', ''meta_cognition'', ''domain_expertise''},
             intensity = LEGENDARY, focus = ANALYTICAL,
             custom_instructions = None, enhanced_reasoning = True\<rparr>
   \<and> get_training_profile ''communication_expert'' =
        Inr \<lparr>name = ''Communication Expert'',
             description = ''Master communicator and interpersonal specialist'',
             skill_domains = {''communication'', ''leadership'', ''ethical_reasoning''},
             intensity = LEGENDARY, focus = INTERPERSONAL,
             custom_instructions = None, enhanced_reasoning = True\<rparr>
   \<and> get_training_profile ''innovation_genius'' =
        Inr \<lparr>name = ''Innovation Genius'',
             description = ''Creative problem-solver and innovation catalyst'',
             skill_domains = {''creative_thinking'', ''problem_solving'', ''domain_expertise''},
             intensity = LEGENDARY, focus = CREATIVE,
             custom_instructions = None, enhanced_reasoning = True\<rparr>
   \<and> get_training_profile ''ethical_leader'' =
        Inr \<lparr>name = ''Ethical Leader'',
             description = ''Principled leader with strong moral reasoning'',
             skill_domains = {''ethical_reasoning'', ''leadership'', ''communication''},
             intensity = LEGENDARY, focus = ETHICAL,
             custom_instructions = None, enhanced_reasoning = True\<rparr>
   \<and> get_training_profile ''balanced_expert'' =
        Inr \<lparr>name = ''Balanced Expert'',
             description = ''Well-rounded expert with advanced capabilities'',
             skill_domains = {''problem_solving'', ''communication'', ''domain_expertise'',
               ''ethical_reasoning''},
             intensity = ADVANCED, focus = COMPREHENSIVE,
             custom_instructions = None, enhanced_reasoning = True\<rparr>\<close>
proof (intro conjI impI)
  assume h: "profile_name \<notin> set [''legendary_sage'', ''analytical_master'',
    ''communication_expert'', ''innovation_genius'', ''ethical_leader'', ''balanced_expert'']"
  let ?tail = "''. Available profiles: legendary_sage, analytical_master, communication_expert, innovation_genius, ethical_leader, balanced_expert''"
  let ?msg = "''Unknown profile '' @ [CHR 0x27] @ profile_name @ [CHR 0x27] @ ?tail"
  have g: "get_training_profile profile_name = Inl (ValueError ?msg)"
    using map_of_profiles_None [OF h]
    by (simp add: get_training_profile_def available_profiles)
  have t: "str_in ''legendary_sage'' ?tail" "str_in ''analytical_master'' ?tail"
    "str_in ''communication_expert'' ?tail" "str_in ''innovation_genius'' ?tail"
    "str_in ''ethical_leader'' ?tail" "str_in ''balanced_expert'' ?tail"
    by (simp_all add: str_in_def sublist_code)
  have m: "?msg = (''Unknown profile '' @ [CHR 0x27] @ profile_name @ [CHR 0x27]) @ ?tail"
    by simp
  have "str_in ''legendary_sage'' ?msg" "str_in ''analytical_master'' ?msg"
    "str_in ''communication_expert'' ?msg" "str_in ''innovation_genius'' ?msg"
    "str_in ''ethical_leader'' ?msg" "str_in ''balanced_expert'' ?msg"
    unfolding m by (rule str_in_appendI, rule t)+
  with g show "\<exists>msg. get_training_profile profile_name = Inl (ValueError msg)
         \<and> msg = ?msg
         \<and> str_in ''legendary_sage'' msg \<and> str_in ''analytical_master'' msg
         \<and> str_in ''communication_expert'' msg \<and> str_in ''innovation_genius'' msg
         \<and> str_in ''ethical_leader'' msg \<and> str_in ''balanced_expert'' msg"
    by blast
qed (simp_all add: get_training_profile_def profiles_def SKILL_DOMAINS_def)



theorem unknown_profile_lookup_witness:
  \<open>''not_a_real_profile'' \<notin> set [''legendary_sage'', ''analytical_master'',
       ''communication_expert'', ''innovation_genius'', ''ethical_leader'', ''balanced_expert'']
   \<and> get_training_profile ''not_a_real_profile'' =
       Inl (ValueError ''Unknown profile \'not_a_real_profile\'. Available profiles: legendary_sage, analytical_master, communication_expert, innovation_genius, ethical_leader, balanced_expert'')\<close>
proof -
  have a: "''not_a_real_profile'' \<notin> set [''legendary_sage'', ''analytical_master'',
       ''communication_expert'', ''innovation_genius'', ''ethical_leader'', ''balanced_expert'']"
    by simp
  note t = unknown_profile_lookup [of "''not_a_real_profile''", THEN conjunct1, rule_format, OF a]
  then obtain msg where "get_training_profile ''not_a_real_profile'' = Inl (ValueError msg)"
    and "msg = ''Unknown profile '' @ [CHR 0x27] @ ''not_a_real_profile'' @ [CHR 0x27]
        @ ''. Available profiles: legendary_sage, analytical_master, communication_expert, innovation_genius, ethical_leader, balanced_expert''"
    by (elim exE conjE)
  then have \<open>get_training_profile ''not_a_real_profile'' =
       Inl (ValueError ''Unknown profile \'not_a_real_profile\'. Available profiles: legendary_sage, analytical_master, communication_expert, innovation_genius, ethical_leader, balanced_expert'')\<close>
    by simp
  with a show ?thesis by (intro conjI)
qed

section \<open>Token accounting\<close>

text \<open>
  Claim C7. Whenever \<open>get_response\<close> returns a response, its text is the response
  that \<open>_generate_response\<close> selected, \<open>input_tokens\<close> is the number of words of the
  extracted input text (for a string input, the lower-cased input), \<open>output_tokens\<close> the
  number of words of the response text, \<open>total_tokens\<close> their sum and \<open>requests\<close> is 1.
  For the input \<open>one two three\<close> and a response text of five words the counts are 3, 5
  and 8.
\<close>

theorem token_accounting:
  assumes "get_response self ids sys inp = Inr r"
  shows "generate_response self sys (extract_input_text inp) = Inr (text_of r)
     \<and> input_tokens (usage r) = length (split (extract_input_text inp))
     \<and> extract_input_text (Text s) = lower s
     \<and> output_tokens (usage r) = length (split (text_of r))
     \<and> total_tokens (usage r) = input_tokens (usage r) + output_tokens (usage r)
     \<and> requests (usage r) = 1
     \<and> (inp = Text ''one two three'' \<and> length (split (text_of r)) = 5 \<longrightarrow>
          input_tokens (usage r) = 3 \<and> output_tokens (usage r) = 5
          \<and> total_tokens (usage r) = 8)"
proof -
  from get_response_Inr [OF assms] obtain t where
    g: "generate_response self sys (extract_input_text inp) = Inr t" and
    t: "text_of r = t" and
    u: "usage r = \<lparr>requests = 1,
                 input_tokens = length (split (extract_input_text inp)),
                 output_tokens = length (split t),
                 total_tokens = length (split (extract_input_text inp)) + length (split t)\<rparr>"
    by blast
  have three: "length (split (extract_input_text (Text ''one two three''))) = 3"
    by (simp add: extract_input_text_def split_def isspace_def str_eval)
  show ?thesis
  proof (intro conjI impI)
    show "generate_response self sys (extract_input_text inp) = Inr (text_of r)"
      using g t by simp
    show "input_tokens (usage r) = length (split (extract_input_text inp))"
      using u by simp
    show "extract_input_text (Text s) = lower s"
      by (simp add: extract_input_text_def)
    show "output_tokens (usage r) = length (split (text_of r))"
      using u t by simp
    show "total_tokens (usage r) = input_tokens (usage r) + output_tokens (usage r)"
      using u by simp
    show "requests (usage r) = 1"
      using u by simp
  next
    assume h: "inp = Text ''one two three'' \<and> length (split (text_of r)) = 5"
    with u t three show "input_tokens (usage r) = 3" by simp
    from h u t show "output_tokens (usage r) = 5" by simp
    from h u t three show "total_tokens (usage r) = 8" by simp
  qed
qed

theorem token_accounting_witness:
  "get_response \<lparr>model_name = ''stub-model'',
        legendary_responses = [''default'' \<mapsto> ''alpha beta gamma delta epsilon'']\<rparr>
       (''id-1'', ''id-2'') None (Text ''one two three'')
     = Inr \<lparr>outputs = [\<lparr>message_id = ''id-1'', role = ''assistant'', status = ''completed'',
                 message_type = ''message'',
                 content = [\<lparr>text_type = ''output_text'',
                              output_text = ''alpha beta gamma delta epsilon'',
                              annotations = []\<rparr>]\<rparr>],
             usage = \<lparr>requests = 1, input_tokens = 3, output_tokens = 5, total_tokens = 8\<rparr>,
             response_id = ''id-2''\<rparr>
   \<and> length (split ''alpha beta gamma delta epsilon'') = 5"
proof -
  let ?self = "\<lparr>model_name = ''stub-model'',
        legendary_responses = [''default'' \<mapsto> ''alpha beta gamma delta epsilon'']\<rparr>"
  let ?r = "\<lparr>outputs = [\<lparr>message_id = ''id-1'', role = ''assistant'', status = ''completed'',
                 message_type = ''message'',
                 content = [\<lparr>text_type = ''output_text'',
                              output_text = ''alpha beta gamma delta epsilon'',
                              annotations = []\<rparr>]\<rparr>],
             usage = \<lparr>requests = 1, input_tokens = 3, output_tokens = 5, total_tokens = 8\<rparr>,
             response_id = ''id-2''\<rparr>"
  have a: "get_response ?self (''id-1'', ''id-2'') None (Text ''one two three'') = Inr ?r"
    by (simp add: get_response_def generate_response_def getitem_def Let_def
        extract_input_text_def split_def isspace_def str_eval)
  have b: "length (split ''alpha beta gamma delta epsilon'') = 5"
    by (simp add: split_def isspace_def)
  note t = token_accounting [OF a, of "''x''"]
  from t have "total_tokens (usage ?r) = input_tokens (usage ?r) + output_tokens (usage ?r)"
    by (elim conjE)
  with a b show ?thesis by (intro conjI)
qed

section \<open>Determinism of the assembler\<close>




section \<open>Resolving skill domains\<close>

text \<open>
  Claim C9. \<open>get_skill_objects\<close> has no error branch: the subscript is guarded by the
  membership test. When \<open>order\<close> iterates the set \<open>skill_domains\<close> of a profile, the result
  holds exactly the modules registered under names of the set, its length is the number
  of names of the set that the registry knows, hence at most the size of the set, and a
  set of one known and one unknown name yields one module.
\<close>

theorem unknown_skill_names_dropped:
  assumes "iterates order (skill_domains p)"
  shows "set (get_skill_objects order p)
           = {sd. \<exists>d\<in>skill_domains p. map_of SKILL_DOMAINS d = Some sd}
         \<and> length (get_skill_objects order p)
           = card {d \<in> skill_domains p. d \<in> fst ` set SKILL_DOMAINS}
         \<and> length (get_skill_objects order p) \<le> card (skill_domains p)
         \<and> (\<forall>valid invalid.
               skill_domains p = {valid, invalid} \<and> valid \<in> fst ` set SKILL_DOMAINS
               \<and> invalid \<notin> fst ` set SKILL_DOMAINS
               \<longrightarrow> length (get_skill_objects order p) = 1)"
proof -
  let ?S = "skill_domains p"
  let ?K = "fst ` set SKILL_DOMAINS"
  let ?kept = "filter (\<lambda>d. d \<in> ?K) (order ?S)"
  from assms have d: "distinct (order ?S)" and s: "set (order ?S) = ?S"
    by (simp_all add: iterates_def)
  have fin: "finite ?S" using s by (metis List.finite_set)
  have "length (get_skill_objects order p) = length ?kept"
    unfolding get_skill_objects_def length_map_filter map_of_SKILL_DOMAINS_None ..
  moreover have "distinct ?kept" using d by simp
  then have "card (set ?kept) = length ?kept" by (rule distinct_card)
  moreover have "set ?kept = {d \<in> ?S. d \<in> ?K}" using s by auto
  ultimately have len: "length (get_skill_objects order p) = card {d \<in> ?S. d \<in> ?K}"
    by simp
  have "{d \<in> ?S. d \<in> ?K} \<subseteq> ?S" by (rule Collect_restrict)
  with fin have "card {d \<in> ?S. d \<in> ?K} \<le> card ?S" by (rule card_mono)
  with len have le: "length (get_skill_objects order p) \<le> card ?S" by simp
  have st: "set (get_skill_objects order p) = {sd. \<exists>d\<in>?S. map_of SKILL_DOMAINS d = Some sd}"
    unfolding get_skill_objects_def set_map_filter s ..
  show ?thesis
  proof (intro conjI allI impI)
    show "set (get_skill_objects order p) = {sd. \<exists>d\<in>?S. map_of SKILL_DOMAINS d = Some sd}"
      by (rule st)
    show "length (get_skill_objects order p) = card {d \<in> ?S. d \<in> ?K}" by (rule len)
    show "length (get_skill_objects order p) \<le> card ?S" by (rule le)
  next
    fix valid invalid
    assume h: "?S = {valid, invalid} \<and> valid \<in> ?K \<and> invalid \<notin> ?K"
    then have "{d \<in> ?S. d \<in> ?K} = {valid}" by blast
    with len show "length (get_skill_objects order p) = 1" by simp
  qed
qed


theorem unknown_skill_names_dropped_witness:
  "iterates (\<lambda>S. [''problem_solving'', ''invalid_domain''])
     (skill_domains \<lparr>name = ''Test'', description = ''Test'',
        skill_domains = {''problem_solving'', ''invalid_domain''},
        intensity = ADVANCED, focus = COMPREHENSIVE,
        custom_instructions = None, enhanced_reasoning = True\<rparr>)
   \<and> length (get_skill_objects (\<lambda>S. [''problem_solving'', ''invalid_domain''])
        \<lparr>name = ''Test'', description = ''Test'',
         skill_domains = {''problem_solving'', ''invalid_domain''},
         intensity = ADVANCED, focus = COMPREHENSIVE,
         custom_instructions = None, enhanced_reasoning = True\<rparr>) = 1
   \<and> get_skill_objects (\<lambda>S. [''problem_solving'', ''invalid_domain''])
        \<lparr>name = ''Test'', description = ''Test'',
         skill_domains = {''problem_solving'', ''invalid_domain''},
         intensity = ADVANCED, focus = COMPREHENSIVE,
         custom_instructions = None, enhanced_reasoning = True\<rparr> = [ProblemSolving]"
proof -
  let ?order = "\<lambda>S::string set. [''problem_solving'', ''invalid_domain'']"
  let ?p = "\<lparr>name = ''Test'', description = ''Test'',
         skill_domains = {''problem_solving'', ''invalid_domain''},
         intensity = ADVANCED, focus = COMPREHENSIVE,
         custom_instructions = None, enhanced_reasoning = True\<rparr>"
  have a: "iterates ?order (skill_domains ?p)"
    by (simp add: iterates_def)
  have b: "skill_domains ?p = {''problem_solving'', ''invalid_domain''}
      \<and> ''problem_solving'' \<in> fst ` set SKILL_DOMAINS
      \<and> ''invalid_domain'' \<notin> fst ` set SKILL_DOMAINS"
    by (simp add: SKILL_DOMAINS_def)
  note t = unknown_skill_names_dropped [OF a]
  note u = t [THEN conjunct2, THEN conjunct2, THEN conjunct2, rule_format, OF b]
  have e: "get_skill_objects ?order ?p = [ProblemSolving]"
    by (simp add: get_skill_objects_def List.map_filter_def SKILL_DOMAINS_def)
  from a u e show ?thesis by (intro conjI)
qed

section \<open>Profiles with the communication module\<close>

text \<open>
  Claim C10. When the resolved skill modules of a profile include the communication
  module and the profile has no custom instructions, the stub model answers the
  assembled instructions with the communication-expert response: the instructions of the
  communication module contain \<open>master communicator\<close>, and none of the five substrings
  tested before it occurs in the assembled text, which does not depend on the name and
  the description of the profile. The registered profile \<open>legendary_sage\<close> is such a
  profile, for every order in which its set of skill domains is iterated.
\<close>

theorem communication_module_classification:
  "(CommunicationSkills \<in> set (get_skill_objects order p)
      \<and> \<not> truthy (custom_instructions p) \<longrightarrow>
      generate_response self
           (Some (generate_instructions LegendaryTraining_init order p)) inp
         = getitem (legendary_responses self) ''communication_expert''
     \<and> generate_response (StubModel_init nm)
           (Some (generate_instructions LegendaryTraining_init order p)) inp
         = Inr communication_expert_response
     \<and> str_in ''master communicator''
           (lower (generate_instructions LegendaryTraining_init order p))
     \<and> \<not> str_in ''legendary sage''
           (lower (generate_instructions LegendaryTraining_init order p))
     \<and> \<not> str_in ''master-level capabilities across all domains''
           (lower (generate_instructions LegendaryTraining_init order p))
     \<and> \<not> str_in ''analytical master''
           (lower (generate_instructions LegendaryTraining_init order p))
     \<and> \<not> str_in ''exceptional analytical''
           (lower (generate_instructions LegendaryTraining_init order p))
     \<and> \<not> str_in ''communication expert''
           (lower (generate_instructions LegendaryTraining_init order p)))
   \<and> str_in ''master communicator'' (lower (get_instructions CommunicationSkills))
   \<and> generate_instructions LegendaryTraining_init order
           (p\<lparr>name := other_name, description := other_description\<rparr>)
         = generate_instructions LegendaryTraining_init order p
   \<and> (get_training_profile ''legendary_sage'' = Inr q \<and> iterates order (skill_domains q)
        \<longrightarrow> generate_response (StubModel_init nm)
              (Some (generate_instructions LegendaryTraining_init order q)) inp
            = Inr communication_expert_response)"
proof (intro conjI impI)
  let ?t = "generate_instructions LegendaryTraining_init order p"
  show "str_in ''master communicator'' (lower (get_instructions CommunicationSkills))"
    using master_communicator_in_instructions by simp
  show "generate_instructions LegendaryTraining_init order
           (p\<lparr>name := other_name, description := other_description\<rparr>) = ?t"
    by (rule generate_instructions_reads) simp_all
  {
    assume h: "CommunicationSkills \<in> set (get_skill_objects order p)
      \<and> \<not> truthy (custom_instructions p)"
    then have c: "CommunicationSkills \<in> set (get_skill_objects order p)"
      and n: "\<not> truthy (custom_instructions p)" by simp_all
    note e = communication_selects_expert [OF n c]
    show "generate_response self (Some ?t) inp
        = getitem (legendary_responses self) ''communication_expert''"
      by (rule e)
    show "generate_response (StubModel_init nm) (Some ?t) inp
        = Inr communication_expert_response"
      using e [of "StubModel_init nm" inp] by (simp add: getitem_init)
    show "str_in ''master communicator'' (lower ?t)"
      using c by (rule assembled_master_communicator)
    from assembled_free_higher [OF n, of order]
    show "\<not> str_in ''legendary sage'' (lower ?t)"
      "\<not> str_in ''master-level capabilities across all domains'' (lower ?t)"
      "\<not> str_in ''analytical master'' (lower ?t)"
      "\<not> str_in ''exceptional analytical'' (lower ?t)"
      "\<not> str_in ''communication expert'' (lower ?t)"
      by (simp_all add: free_of_def all_signatures)
  }
  {
    assume "get_training_profile ''legendary_sage'' = Inr q \<and> iterates order (skill_domains q)"
    then have "get_training_profile ''legendary_sage'' = Inr q"
      and "iterates order (skill_domains q)" by simp_all
    note s = legendary_sage_has_communication [OF this]
    show "generate_response (StubModel_init nm)
              (Some (generate_instructions LegendaryTraining_init order q)) inp
            = Inr communication_expert_response"
      using communication_selects_expert [OF s, of "StubModel_init nm" inp]
      by (simp add: getitem_init)
  }
qed

theorem communication_module_classification_witness:
  "get_training_profile ''legendary_sage'' = Inr (\<lparr>name = ''Legendary Sage'',
          description = ''Master-level capabilities across all domains'',
          skill_domains = {''problem_solving'', ''communication'', ''domain_expertise'',
            ''meta_cognition'', ''ethical_reasoning'', ''creative_thinking'', ''leadership''},
          intensity = LEGENDARY, focus = COMPREHENSIVE,
          custom_instructions = None, enhanced_reasoning = True\<rparr>)
   \<and> iterates registry_order (skill_domains (\<lparr>name = ''Legendary Sage'',
          description = ''Master-level capabilities across all domains'',
          skill_domains = {''problem_solving'', ''communication'', ''domain_expertise'',
            ''meta_cognition'', ''ethical_reasoning'', ''creative_thinking'', ''leadership''},
          intensity = LEGENDARY, focus = COMPREHENSIVE,
          custom_instructions = None, enhanced_reasoning = True\<rparr>))
   \<and> CommunicationSkills \<in> set (get_skill_objects registry_order (\<lparr>name = ''Legendary Sage'',
          description = ''Master-level capabilities across all domains'',
          skill_domains = {''problem_solving'', ''communication'', ''domain_expertise'',
            ''meta_cognition'', ''ethical_reasoning'', ''creative_thinking'', ''leadership''},
          intensity = LEGENDARY, focus = COMPREHENSIVE,
          custom_instructions = None, enhanced_reasoning = True\<rparr>))
   \<and> \<not> truthy (custom_instructions (\<lparr>name = ''Legendary Sage'',
          description = ''Master-level capabilities across all domains'',
          skill_domains = {''problem_solving'', ''communication'', ''domain_expertise'',
            ''meta_cognition'', ''ethical_reasoning'', ''creative_thinking'', ''leadership''},
          intensity = LEGENDARY, focus = COMPREHENSIVE,
          custom_instructions = None, enhanced_reasoning = True\<rparr>))
   \<and> generate_response (StubModel_init ''stub-model'')
        (Some (generate_instructions LegendaryTraining_init registry_order (\<lparr>name = ''Legendary Sage'',
          description = ''Master-level capabilities across all domains'',
          skill_domains = {''problem_solving'', ''communication'', ''domain_expertise'',
            ''meta_cognition'', ''ethical_reasoning'', ''creative_thinking'', ''leadership''},
          intensity = LEGENDARY, focus = COMPREHENSIVE,
          custom_instructions = None, enhanced_reasoning = True\<rparr>)))
        ''Solve a complex challenge''
       = Inr communication_expert_response"
proof -
  let ?q = "(\<lparr>name = ''Legendary Sage'',
          description = ''Master-level capabilities across all domains'',
          skill_domains = {''problem_solving'', ''communication'', ''domain_expertise'',
            ''meta_cognition'', ''ethical_reasoning'', ''creative_thinking'', ''leadership''},
          intensity = LEGENDARY, focus = COMPREHENSIVE,
          custom_instructions = None, enhanced_reasoning = True\<rparr>)"
  have a: "get_training_profile ''legendary_sage'' = Inr ?q"
    by (rule legendary_sage_profile)
  have b: "iterates registry_order (skill_domains ?q)"
    using iterates_registry_order_sage by simp
  have c: "CommunicationSkills \<in> set (get_skill_objects registry_order ?q)"
    by (simp add: communication_resolved registry_order_def SKILL_DOMAINS_def)
  have d: "\<not> truthy (custom_instructions ?q)" by simp
  note t = communication_module_classification [of registry_order ?q _ _ "''stub-model''" _ _ ?q]
  note u = t [THEN conjunct1, rule_format, OF conjI [OF c d], THEN conjunct2, THEN conjunct1]
  note v = t [THEN conjunct2, THEN conjunct2, THEN conjunct2, rule_format, OF conjI [OF a b]]
  note w = v [of "''Solve a complex challenge''"]
  from a b c d u [of "''Solve a complex challenge''"] w show ?thesis by (intro conjI)
qed

end
